theory Spec2Isabelle
  imports Complex_Main
begin

section \<open>Types (index.tsx, section 1; types.ts)\<close>

text \<open>
  The enum \<^verbatim>\<open>TreeState\<close> and the interface \<^verbatim>\<open>GestureData\<close>. The hand
  coordinates are JavaScript numbers; the application state never computes with them, so
  the record is polymorphic in the number type \<open>'n\<close>.
\<close>

datatype TreeState = CHAOS | FORMED

record 'n GestureData =
  state :: TreeState
  handX :: 'n
  handY :: 'n

section \<open>Constants (index.tsx, section 2; constants.ts)\<close>

definition FOLIAGE_COUNT :: nat where "FOLIAGE_COUNT = 15000"
definition ORNAMENT_COUNT :: nat where "ORNAMENT_COUNT = 400"
definition FILLER_COUNT :: nat where "FILLER_COUNT = 1200"
definition POLAROID_COUNT :: nat where "POLAROID_COUNT = 30"

section \<open>The application state (component App)\<close>

text \<open>
  \<^verbatim>\<open>useState<GestureData>({ state: TreeState.FORMED, handX: 0, handY: 0 })\<close>
\<close>

definition initialGestureData :: "('n::zero) GestureData" where
  "initialGestureData = \<lparr>state = FORMED, handX = 0, handY = 0\<rparr>"

text \<open>
  The updater that the callback handed to \<^verbatim>\<open>geminiService.connect\<close> passes to
  \<^verbatim>\<open>setGestureData\<close>:
  \<^verbatim>\<open>
  prev => { const newState = data.state === TreeState.CHAOS ? TreeState.CHAOS : prev.state;
            return { state: newState, handX: data.handX, handY: data.handY }; }\<close>
\<close>

definition onData :: "'n GestureData \<Rightarrow> 'n GestureData \<Rightarrow> 'n GestureData" where
  "onData prev data =
     (let newState = (if state data = CHAOS then CHAOS else state prev)
      in \<lparr>state = newState, handX = handX data, handY = handY data\<rparr>)"

text \<open>
  \<^verbatim>\<open>toggleSimulation\<close>:
  \<^verbatim>\<open>prev => ({ ...prev, state: prev.state === TreeState.FORMED ? TreeState.CHAOS : TreeState.FORMED })\<close>
\<close>

definition toggleSimulation :: "'n GestureData \<Rightarrow> 'n GestureData" where
  "toggleSimulation prev = prev\<lparr>state := (if state prev = FORMED then CHAOS else FORMED)\<rparr>"

text \<open>
  \<^verbatim>\<open>setGestureData\<close> has exactly two call sites in \<^verbatim>\<open>App\<close>: the gesture callback
  and the button's \<^verbatim>\<open>toggleSimulation\<close>. These are the operations on the gesture data.
\<close>

datatype 'n AppOp = Gesture "'n GestureData" | Toggle

fun applyOp :: "'n GestureData \<Rightarrow> 'n AppOp \<Rightarrow> 'n GestureData" where
  "applyOp prev (Gesture data) = onData prev data"
| "applyOp prev Toggle = toggleSimulation prev"

definition applyOps :: "'n GestureData \<Rightarrow> 'n AppOp list \<Rightarrow> 'n GestureData" where
  "applyOps g ops = foldl applyOp g ops"

definition isGesture :: "'n AppOp \<Rightarrow> bool" where
  "isGesture op = (case op of Gesture _ \<Rightarrow> True | Toggle \<Rightarrow> False)"

section \<open>The control signal (component Experience)\<close>

text \<open>
  JavaScript numbers are modelled as real numbers: the arithmetic below is exact, the
  rounding of IEEE doubles is not part of the model.

  \<^verbatim>\<open>const [progress, setProgress] = useState(0);\<close>
\<close>

definition progress_init :: real where
  "progress_init = 0"

text \<open>\<^verbatim>\<open>const target = gestureData.state === TreeState.CHAOS ? 1 : 0;\<close>\<close>

definition target_of :: "TreeState \<Rightarrow> real" where
  "target_of st = (if st = CHAOS then 1 else 0)"

text \<open>
  The updater that \<^verbatim>\<open>animate\<close> passes to \<^verbatim>\<open>setProgress\<close> once per animation frame:
  \<^verbatim>\<open>
  prev => { const diff = target - prev;
            if (Math.abs(diff) < 0.001) return target;
            return prev + diff * 0.05; }\<close>
\<close>

definition animate :: "real \<Rightarrow> real \<Rightarrow> real" where
  "animate target prev =
     (let diff = target - prev
      in if \<bar>diff\<bar> < 0.001 then target else prev + diff * 0.05)"

text \<open>
  A run of animation frames. The effect is restarted whenever \<^verbatim>\<open>gestureData.state\<close>
  changes, so each frame is given the tree state that is current when it runs.
\<close>

definition run_frames :: "real \<Rightarrow> TreeState list \<Rightarrow> real" where
  "run_frames p sts = foldl (\<lambda>prev st. animate (target_of st) prev) p sts"

section \<open>Polaroids and photo upload\<close>

text \<open>
  \<^verbatim>\<open>`${i}`\<close> for a non-negative integer index: its decimal digits.
\<close>

definition digit_char :: "nat \<Rightarrow> char" where
  "digit_char d = char_of (of_char (CHR ''0'') + d)"

fun decimal :: "nat \<Rightarrow> string" where
  "decimal n = (if n < 10 then [digit_char n] else decimal (n div 10) @ [digit_char (n mod 10)])"

declare decimal.simps [simp del]

definition placeholder :: "nat \<Rightarrow> string" where
  "placeholder i = ''https://picsum.photos/300/300?random='' @ decimal i"

text \<open>
  \<^verbatim>\<open>
  const images = useMemo(() => {
      if (photos && photos.length > 0) return photos;
      return Array.from({ length: POLAROID_COUNT }).map((_, i) => `https://picsum.photos/300/300?random=${i}`);
  }, [photos]);\<close>
\<close>

definition images :: "string list \<Rightarrow> string list" where
  "images photos =
     (if length photos > 0 then photos else map placeholder [0..<POLAROID_COUNT])"

text \<open>
  \<^verbatim>\<open>images[i % images.length]\<close>. In JavaScript \<^verbatim>\<open>i % 0\<close> is \<^verbatim>\<open>NaN\<close> and an
  index outside the array reads \<^verbatim>\<open>undefined\<close>; both are \<open>None\<close> here.
\<close>

definition image_at :: "string list \<Rightarrow> nat \<Rightarrow> string option" where
  "image_at imgs i =
     (if length imgs = 0 then None
      else let j = i mod length imgs in if j < length imgs then Some (imgs ! j) else None)"

text \<open>
  One \<^verbatim>\<open>PolaroidItem\<close> per index below \<^verbatim>\<open>POLAROID_COUNT\<close>, with its \<^verbatim>\<open>index\<close> and
  \<^verbatim>\<open>url\<close> props:
  \<^verbatim>\<open>
  Array.from({ length: POLAROID_COUNT }).map((_, i) => (
      <PolaroidItem ... index={i} url={images[i % images.length]} ... total={POLAROID_COUNT} />))\<close>
\<close>

definition Polaroids :: "string list \<Rightarrow> (nat \<times> string option) list" where
  "Polaroids photos = map (\<lambda>i. (i, image_at (images photos) i)) [0..<POLAROID_COUNT]"

text \<open>
  \<^verbatim>\<open>handleFileChange\<close>. Each selected file is read by a \<^verbatim>\<open>FileReader\<close>; the promise
  made for it is resolved by \<^verbatim>\<open>onload\<close> with the data URL and by nothing else, so
  \<open>readAsDataURL f = None\<close> stands for a read that never calls \<^verbatim>\<open>onload\<close>. Then
  \<^verbatim>\<open>Promise.all\<close> never settles and \<^verbatim>\<open>setCustomPhotos\<close> is not called.
  \<^verbatim>\<open>
  const files = event.target.files;
  if (!files || files.length === 0) return;
  const fileList = Array.from(files);
  const promises = fileList.map(file => new Promise<string>(...));
  try { const images = await Promise.all(promises); setCustomPhotos(images); } catch (error) {}\<close>
  The argument \<open>files\<close> is \<open>None\<close> for a null \<^verbatim>\<open>event.target.files\<close>.
\<close>

definition handleFileChange ::
    "('f \<Rightarrow> string option) \<Rightarrow> 'f list option \<Rightarrow> string list \<Rightarrow> string list" where
  "handleFileChange readAsDataURL files customPhotos =
     (case files of
        None \<Rightarrow> customPhotos
      | Some fileList \<Rightarrow>
          if length fileList = 0 then customPhotos
          else if list_all (\<lambda>f. readAsDataURL f \<noteq> None) fileList
               then map (\<lambda>f. the (readAsDataURL f)) fileList
               else customPhotos)"

text \<open>\<^verbatim>\<open>useState<string[]>([])\<close>\<close>

definition customPhotos_init :: "string list" where
  "customPhotos_init = []"

text \<open>Two sample files, named by numbers, and the data URLs a reader returns for them.\<close>

definition sample_url :: "nat \<Rightarrow> string" where
  "sample_url f = ''data:image/png;base64,'' @ decimal f"

definition sample_reader :: "nat \<Rightarrow> string option" where
  "sample_reader f = Some (sample_url f)"

section \<open>From the model's text to a gesture (class GeminiLiveService)\<close>

text \<open>
  The values \<^verbatim>\<open>JSON.parse\<close> returns. An object is the list of its own properties.
\<close>

datatype 'n json =
    JNull
  | JBool bool
  | JNum 'n
  | JStr string
  | JArr "'n json list"
  | JObj "(string \<times> 'n json) list"

datatype js_error = SyntaxError | TypeError

text \<open>
  Reading a property \<^verbatim>\<open>json.state\<close>, \<^verbatim>\<open>json.x\<close> or \<^verbatim>\<open>json.y\<close>: a \<^verbatim>\<open>TypeError\<close> on
  \<^verbatim>\<open>null\<close>, the property's value on an object that has it, and \<^verbatim>\<open>undefined\<close>
  (\<open>None\<close>) otherwise: none of the three names is a property of the prototype of an
  object, array, string, number or boolean.
\<close>

fun getprop :: "'n json \<Rightarrow> string \<Rightarrow> js_error + 'n json option" where
  "getprop JNull k = Inl TypeError"
| "getprop (JObj props) k = Inr (map_of props k)"
| "getprop _ k = Inr None"

text \<open>
  The argument of \<^verbatim>\<open>onData\<close> in both modes:
  \<^verbatim>\<open>
  { state: json.state === 'CHAOS' ? TreeState.CHAOS : TreeState.FORMED,
    handX: typeof json.x === 'number' ? json.x : 0,
    handY: typeof json.y === 'number' ? json.y : 0 }\<close>
\<close>

definition stateOf :: "'n json option \<Rightarrow> TreeState" where
  "stateOf v = (if v = Some (JStr ''CHAOS'') then CHAOS else FORMED)"

definition numberOr0 :: "('n::zero) json option \<Rightarrow> 'n" where
  "numberOr0 v = (case v of Some (JNum n) \<Rightarrow> n | _ \<Rightarrow> 0)"

definition gestureOf :: "('n::zero) json \<Rightarrow> js_error + 'n GestureData" where
  "gestureOf json =
     (case getprop json ''state'' of
        Inl e \<Rightarrow> Inl e
      | Inr s \<Rightarrow>
          (case getprop json ''x'' of
             Inl e \<Rightarrow> Inl e
           | Inr x \<Rightarrow>
               (case getprop json ''y'' of
                  Inl e \<Rightarrow> Inl e
                | Inr y \<Rightarrow> Inr \<lparr>state = stateOf s, handX = numberOr0 x, handY = numberOr0 y\<rparr>)))"

text \<open>
  \<^verbatim>\<open>part.text.match(/\{.*\}/)\<close>: the leftmost \<^verbatim>\<open>{\<close> that is followed on its line by a
  \<^verbatim>\<open>}\<close>, up to the last \<^verbatim>\<open>}\<close> of that line (\<^verbatim>\<open>.\<close> matches no line terminator and
  \<^verbatim>\<open>*\<close> is greedy). Text is a list of 8-bit characters here, so of JavaScript's line
  terminators only line feed and carriage return occur.
\<close>

definition lineTerminator :: "char \<Rightarrow> bool" where
  "lineTerminator c = (c = CHR 0x0A \<or> c = CHR 0x0D)"

definition matchBody :: "string \<Rightarrow> string option" where
  "matchBody rest =
     (let line = takeWhile (\<lambda>c. \<not> lineTerminator c) rest
      in if CHR ''}'' \<in> set line
         then Some (rev (dropWhile (\<lambda>c. c \<noteq> CHR ''}'') (rev line)))
         else None)"

fun matchBraces :: "string \<Rightarrow> string option" where
  "matchBraces [] = None"
| "matchBraces (c # cs) =
     (if c = CHR ''{''
      then (case matchBody cs of Some body \<Rightarrow> Some (c # body) | None \<Rightarrow> matchBraces cs)
      else matchBraces cs)"

text \<open>
  What a handler does with one text: it calls \<^verbatim>\<open>onData\<close> once (\<open>Some data\<close>) or not at
  all (\<open>None\<close>); \<open>Inl\<close> is an exception that leaves the handler. \<^verbatim>\<open>try { ... } catch (e) {}\<close>
  turns every exception of its body into "no call".
\<close>

definition tryCatch :: "js_error + 'a option \<Rightarrow> js_error + 'a option" where
  "tryCatch body = (case body of Inl e \<Rightarrow> Inr None | Inr r \<Rightarrow> Inr r)"

definition parseAndReport ::
    "(string \<Rightarrow> js_error + ('n::zero) json) \<Rightarrow> string \<Rightarrow> js_error + 'n GestureData option" where
  "parseAndReport JSON_parse text =
     (case JSON_parse text of
        Inl e \<Rightarrow> Inl e
      | Inr json \<Rightarrow> (case gestureOf json of Inl e \<Rightarrow> Inl e | Inr data \<Rightarrow> Inr (Some data)))"

text \<open>
  Streaming mode, the body of the loop of \<^verbatim>\<open>onmessage\<close> for one part (\<open>None\<close> is a part
  without \<^verbatim>\<open>text\<close>; the empty string is falsy):
  \<^verbatim>\<open>
  if (part.text) {
    try {
      const match = part.text.match(/\{.*\}/);
      if (match) { const json = JSON.parse(match[0]); onData({...}); }
    } catch (e) {}
  }\<close>
  \<^verbatim>\<open>JSON.parse\<close> is the platform's; it is a parameter of the model.
\<close>

definition onPart ::
    "(string \<Rightarrow> js_error + ('n::zero) json) \<Rightarrow> string option \<Rightarrow> js_error + 'n GestureData option" where
  "onPart JSON_parse part =
     (case part of
        None \<Rightarrow> Inr None
      | Some text \<Rightarrow>
          if text = [] then Inr None
          else tryCatch
                 (case matchBraces text of
                    None \<Rightarrow> Inr None
                  | Some m \<Rightarrow> parseAndReport JSON_parse m))"

text \<open>
  \<^verbatim>\<open>onmessage\<close>: the calls of \<^verbatim>\<open>onData\<close>, in order, for a message whose
  \<^verbatim>\<open>serverContent?.modelTurn?.parts\<close> is \<open>parts\<close> (\<open>None\<close> when it is missing).
\<close>

definition onmessage ::
    "(string \<Rightarrow> js_error + ('n::zero) json) \<Rightarrow> string option list option \<Rightarrow> 'n GestureData list" where
  "onmessage JSON_parse parts =
     (case parts of
        None \<Rightarrow> []
      | Some ps \<Rightarrow>
          concat (map (\<lambda>part. case onPart JSON_parse part of
                                Inr (Some data) \<Rightarrow> [data] | _ \<Rightarrow> []) ps))"

text \<open>
  Polling mode, after \<^verbatim>\<open>generateContent\<close> has answered (\<open>None\<close> is a response without
  \<^verbatim>\<open>text\<close>):
  \<^verbatim>\<open>
  try {
    const response = await this.ai.models.generateContent({...});
    if (response.text) { const json = JSON.parse(response.text); onData({...}); }
  } catch (e) { console.error("Fallback error", e); }\<close>
\<close>

definition onResponse ::
    "(string \<Rightarrow> js_error + ('n::zero) json) \<Rightarrow> string option \<Rightarrow> js_error + 'n GestureData option" where
  "onResponse JSON_parse response_text =
     tryCatch
       (case response_text of
          None \<Rightarrow> Inr None
        | Some text \<Rightarrow> if text = [] then Inr None else parseAndReport JSON_parse text)"

text \<open>
  A sample of \<^verbatim>\<open>JSON.parse\<close>: on the object text below, on \<^verbatim>\<open>5\<close> and on \<^verbatim>\<open>null\<close>
  it returns what \<^verbatim>\<open>JSON.parse\<close> returns. It raises \<^verbatim>\<open>SyntaxError\<close> on every other
  text, as \<^verbatim>\<open>JSON.parse\<close> does on the texts that are not JSON.
\<close>

definition sample_object :: string where
  \<open>sample_object = ''{"state":"CHAOS","x":0.5,"y":"up"}''\<close>

definition sample_parse :: "string \<Rightarrow> js_error + real json" where
  "sample_parse text =
     (if text = sample_object
      then Inr (JObj [(''state'', JStr ''CHAOS''), (''x'', JNum 0.5), (''y'', JStr ''up'')])
      else if text = ''5'' then Inr (JNum 5)
      else if text = ''null'' then Inr JNull
      else Inl SyntaxError)"

section \<open>The gesture service and its timers (class GeminiLiveService)\<close>

text \<open>
  The function an interval timer runs, with the variables its closure captured: the video
  element, the callback \<^verbatim>\<open>onData\<close> and, for polling, the system instruction.
\<close>

datatype ('v, 'cb, 'i) handler =
    StreamingLive 'v 'cb
  | PollingFallback 'v 'cb 'i

text \<open>
  The private fields of the service, and the two parts of its environment that it acts
  on: the table of the window's active interval timers (handle, delay in milliseconds,
  handler) with the next handle \<^verbatim>\<open>setInterval\<close> will return, and the sessions on which
  \<^verbatim>\<open>close()\<close> has been called. \<open>ctx\<close> says that \<^verbatim>\<open>this.ctx\<close> is not null; \<open>ai\<close> holds
  the key the client was made with.
\<close>

record ('s, 'v, 'cb, 'i) service =
  session :: "'s option"
  intervalId :: "nat option"
  ctx :: bool
  ai :: "string option"
  isFallbackActive :: bool
  intervals :: "(nat \<times> nat \<times> ('v, 'cb, 'i) handler) list"
  nextHandle :: nat
  closed :: "'s list"

text \<open>
  The constructor; \<open>has2d\<close> says whether \<^verbatim>\<open>canvas.getContext('2d')\<close> returned a context.
  The handles \<^verbatim>\<open>setInterval\<close> returns are positive.
\<close>

definition newService :: "bool \<Rightarrow> ('s, 'v, 'cb, 'i) service" where
  "newService has2d =
     \<lparr>session = None, intervalId = None, ctx = has2d, ai = None, isFallbackActive = False,
      intervals = [], nextHandle = 1, closed = []\<rparr>"

definition setInterval ::
    "('v, 'cb, 'i) handler \<Rightarrow> nat \<Rightarrow> ('s, 'v, 'cb, 'i) service \<Rightarrow> nat \<times> ('s, 'v, 'cb, 'i) service" where
  "setInterval h delay w =
     (nextHandle w,
      w\<lparr>intervals := intervals w @ [(nextHandle w, delay, h)], nextHandle := nextHandle w + 1\<rparr>)"

definition clearInterval :: "nat \<Rightarrow> ('s, 'v, 'cb, 'i) service \<Rightarrow> ('s, 'v, 'cb, 'i) service" where
  "clearInterval handle w = w\<lparr>intervals := filter (\<lambda>t. fst t \<noteq> handle) (intervals w)\<rparr>"

text \<open>\<^verbatim>\<open>if (this.intervalId)\<close>: a handle that is neither null nor 0.\<close>

definition truthy :: "nat option \<Rightarrow> bool" where
  "truthy handle = (case handle of None \<Rightarrow> False | Some n \<Rightarrow> n \<noteq> 0)"

text \<open>
  \<^verbatim>\<open>this.intervalId = window.setInterval(async () => {...}, 800);\<close>
\<close>

definition startStreamingLive ::
    "'v \<Rightarrow> 'cb \<Rightarrow> ('s, 'v, 'cb, 'i) service \<Rightarrow> ('s, 'v, 'cb, 'i) service" where
  "startStreamingLive videoEl cb w =
     (let (handle, w') = setInterval (StreamingLive videoEl cb) 800 w
      in w'\<lparr>intervalId := Some handle\<rparr>)"

text \<open>
  \<^verbatim>\<open>this.intervalId = window.setInterval(async () => {...}, 1500);\<close>
\<close>

definition startPollingFallback ::
    "'v \<Rightarrow> 'cb \<Rightarrow> 'i \<Rightarrow> ('s, 'v, 'cb, 'i) service \<Rightarrow> ('s, 'v, 'cb, 'i) service" where
  "startPollingFallback videoEl cb systemInstruction w =
     (let (handle, w') = setInterval (PollingFallback videoEl cb systemInstruction) 1500 w
      in w'\<lparr>intervalId := Some handle\<rparr>)"

text \<open>
  \<^verbatim>\<open>
  if (this.isFallbackActive) return;
  this.isFallbackActive = true;
  if (this.intervalId) { clearInterval(this.intervalId); this.intervalId = null; }
  if (this.session) { try { this.session.close(); } catch(e) {} this.session = null; }
  this.startPollingFallback(videoElement, onData, instruction);\<close>
\<close>

definition switchToFallback ::
    "'v \<Rightarrow> 'cb \<Rightarrow> 'i \<Rightarrow> ('s, 'v, 'cb, 'i) service \<Rightarrow> ('s, 'v, 'cb, 'i) service" where
  "switchToFallback videoElement cb instruction w =
     (if isFallbackActive w then w
      else
        let w1 = w\<lparr>isFallbackActive := True\<rparr>;
            w2 = (if truthy (intervalId w1)
                  then (clearInterval (the (intervalId w1)) w1)\<lparr>intervalId := None\<rparr>
                  else w1);
            w3 = (case session w2 of
                    Some s \<Rightarrow> w2\<lparr>closed := closed w2 @ [s], session := None\<rparr>
                  | None \<Rightarrow> w2)
        in startPollingFallback videoElement cb instruction w3)"

text \<open>
  \<^verbatim>\<open>
  this.isFallbackActive = false;
  if (this.intervalId) clearInterval(this.intervalId);
  if(this.session) { try { this.session.close(); } catch(e) {} }
  this.session = null;
  this.ai = null;\<close>
\<close>

definition disconnect :: "('s, 'v, 'cb, 'i) service \<Rightarrow> ('s, 'v, 'cb, 'i) service" where
  "disconnect w =
     (let w1 = w\<lparr>isFallbackActive := False\<rparr>;
          w2 = (if truthy (intervalId w1) then clearInterval (the (intervalId w1)) w1 else w1);
          w3 = (case session w2 of Some s \<Rightarrow> w2\<lparr>closed := closed w2 @ [s]\<rparr> | None \<Rightarrow> w2)
      in w3\<lparr>session := None, ai := None\<rparr>)"

text \<open>
  \<^verbatim>\<open>connect\<close> up to its \<^verbatim>\<open>await\<close>; \<open>apiKey\<close> is \<^verbatim>\<open>process.env.API_KEY\<close>, and
  \<^verbatim>\<open>!apiKey\<close> holds of an undefined and of an empty key.
  \<^verbatim>\<open>
  if (!apiKey) { console.warn(...); return; }
  this.ai = new GoogleGenAI({ apiKey });
  this.isFallbackActive = false;\<close>
\<close>

definition connect :: "string option \<Rightarrow> ('s, 'v, 'cb, 'i) service \<Rightarrow> ('s, 'v, 'cb, 'i) service" where
  "connect apiKey w =
     (if apiKey = None \<or> apiKey = Some [] then w
      else w\<lparr>ai := apiKey, isFallbackActive := False\<rparr>)"

text \<open>
  What happens to the service, one event at a time. After \<open>Connect\<close> with a key, the
  awaited \<^verbatim>\<open>live.connect\<close> either resolves (\<^verbatim>\<open>this.session = ...\<close>) or rejects (the
  \<^verbatim>\<open>catch\<close> calls \<^verbatim>\<open>switchToFallback\<close>); the session's callbacks \<^verbatim>\<open>onopen\<close> and
  \<^verbatim>\<open>onerror\<close> call \<^verbatim>\<open>startStreamingLive\<close> and \<^verbatim>\<open>switchToFallback\<close>. The video
  element, callback and instruction of an event are those of the \<^verbatim>\<open>connect\<close> call
  whose closure it runs.
\<close>

datatype ('s, 'v, 'cb, 'i) event =
    Connect "string option"
  | Resolved 's
  | Rejected 'v 'cb 'i
  | OnOpen 'v 'cb
  | OnError 'v 'cb 'i
  | Disconnect

fun step :: "('s, 'v, 'cb, 'i) service \<Rightarrow> ('s, 'v, 'cb, 'i) event \<Rightarrow> ('s, 'v, 'cb, 'i) service" where
  "step w (Connect apiKey) = connect apiKey w"
| "step w (Resolved s) = w\<lparr>session := Some s\<rparr>"
| "step w (Rejected videoElement cb instruction) = switchToFallback videoElement cb instruction w"
| "step w (OnOpen videoElement cb) = startStreamingLive videoElement cb w"
| "step w (OnError videoElement cb instruction) = switchToFallback videoElement cb instruction w"
| "step w Disconnect = disconnect w"

definition run :: "('s, 'v, 'cb, 'i) service \<Rightarrow> ('s, 'v, 'cb, 'i) event list \<Rightarrow> ('s, 'v, 'cb, 'i) service" where
  "run w evs = foldl step w evs"

text \<open>The handles of the interval timers that are active.\<close>

definition activeTimers :: "('s, 'v, 'cb, 'i) service \<Rightarrow> nat list" where
  "activeTimers w = map fst (intervals w)"

text \<open>
  The handles in use are positive and below the next handle; \<open>timers_recorded\<close> says
  that no timer is active but the one whose handle the service holds.
\<close>

definition handles_ok :: "('s, 'v, 'cb, 'i) service \<Rightarrow> bool" where
  "handles_ok w =
     (0 < nextHandle w
      \<and> list_all (\<lambda>t. 0 < fst t \<and> fst t < nextHandle w) (intervals w)
      \<and> (case intervalId w of None \<Rightarrow> True | Some h \<Rightarrow> 0 < h \<and> h < nextHandle w))"

definition timers_recorded :: "('s, 'v, 'cb, 'i) service \<Rightarrow> bool" where
  "timers_recorded w =
     (length (activeTimers w) \<le> 1 \<and> list_all (\<lambda>h. intervalId w = Some h) (activeTimers w))"

text \<open>
  Sample runs, with sessions, video element and callback named by numbers: the service
  connects with a key and the session opens; it connects and the connection fails; it
  connects and the session opens, twice, with no \<^verbatim>\<open>disconnect\<close> between.
\<close>

definition open_session :: "(nat, nat, nat, unit) event list" where
  "open_session = [Connect (Some ''key''), OnOpen 0 0, Resolved 0]"

definition failed_connect :: "(nat, nat, nat, unit) event list" where
  "failed_connect = [Connect (Some ''key''), Rejected 0 0 ()]"

definition connect_twice :: "(nat, nat, nat, unit) event list" where
  "connect_twice =
     [Connect (Some ''key''), OnOpen 0 0, Resolved 0,
      Connect (Some ''key''), OnOpen 0 0, Resolved 1]"

text \<open>
  The requests the two handlers send. A polling request names the model, holds the image
  parts and the text part of its one user turn, and the system instruction.
\<close>

datatype ('f, 'i) request =
    SendRealtimeInput 'f
  | GenerateContent string "'f list" string 'i

text \<open>
  One run of the polling handler up to its request; \<open>videoWidth\<close> is
  \<^verbatim>\<open>videoEl.videoWidth\<close> at that moment and \<open>frame\<close> what the canvas then encodes.
  \<^verbatim>\<open>
  if (!this.ai || !this.ctx || !videoEl.videoWidth) return;
  ... drawImage ...; const base64Data = this.canvas.toDataURL('image/jpeg', 0.6).split(',')[1];
  ... await this.ai.models.generateContent({ model: 'gemini-2.5-flash',
        contents: [{ role: 'user', parts: [{ inlineData: {..., data: base64Data } },
                                           { text: "Analyze hand state. Return JSON only." }] }],
        config: { systemInstruction: systemInstruction, ... } });\<close>
\<close>

definition pollingTick ::
    "('s, 'v, 'cb, 'i) service \<Rightarrow> 'i \<Rightarrow> nat \<Rightarrow> 'f \<Rightarrow> ('f, 'i) request option" where
  "pollingTick w systemInstruction videoWidth frame =
     (if ai w = None \<or> \<not> ctx w \<or> videoWidth = 0 then None
      else Some (GenerateContent ''gemini-2.5-flash'' [frame]
                   ''Analyze hand state. Return JSON only.'' systemInstruction))"

text \<open>
  One run of the streaming handler: the guard before the frame is drawn, and the guard of
  the \<^verbatim>\<open>toBlob\<close> callback, which runs later, on the service as it is then.
  \<^verbatim>\<open>
  if (this.isFallbackActive || !this.session || !this.ctx || !videoEl.videoWidth) return;
  ...
  this.canvas.toBlob(async (blob) => {
    if (blob && this.session && !this.isFallbackActive) {
      ... this.session.sendRealtimeInput({ media: { mimeType: 'image/jpeg', data: base64 } }) ...\<close>
\<close>

definition streamingTick :: "('s, 'v, 'cb, 'i) service \<Rightarrow> nat \<Rightarrow> bool" where
  "streamingTick w videoWidth =
     (\<not> (isFallbackActive w \<or> session w = None \<or> \<not> ctx w \<or> videoWidth = 0))"

definition streamingBlob :: "('s, 'v, 'cb, 'i) service \<Rightarrow> 'f option \<Rightarrow> ('f, 'i) request option" where
  "streamingBlob w blob =
     (case blob of
        None \<Rightarrow> None
      | Some frame \<Rightarrow>
          if session w \<noteq> None \<and> \<not> isFallbackActive w then Some (SendRealtimeInput frame) else None)"

text \<open>
  The request a timer's handler sends when it runs on \<open>w\<close> (for streaming, with the blob
  callback run on the same \<open>w\<close>), and the callback a polling handler calls, with its
  argument, when the response's text is \<open>response_text\<close>.
\<close>

fun tick :: "('v, 'cb, 'i) handler \<Rightarrow> ('s, 'v, 'cb, 'i) service \<Rightarrow> nat \<Rightarrow> 'f \<Rightarrow> ('f, 'i) request option" where
  "tick (PollingFallback videoEl cb systemInstruction) w videoWidth frame =
     pollingTick w systemInstruction videoWidth frame"
| "tick (StreamingLive videoEl cb) w videoWidth frame =
     (if streamingTick w videoWidth then streamingBlob w (Some frame) else None)"

fun deliver ::
    "('v, 'cb, 'i) handler \<Rightarrow> (string \<Rightarrow> js_error + ('n::zero) json) \<Rightarrow> string option \<Rightarrow>
     ('cb \<times> 'n GestureData) option" where
  "deliver (PollingFallback videoEl cb systemInstruction) JSON_parse response_text =
     (case onResponse JSON_parse response_text of
        Inr (Some data) \<Rightarrow> Some (cb, data)
      | _ \<Rightarrow> None)"
| "deliver (StreamingLive videoEl cb) JSON_parse response_text = None"

section \<open>The particle ensembles (components Foliage, Ornaments, Fillers)\<close>

text \<open>
  Positions are vectors of three numbers, numbers being real as above. Three functions of
  the graphics libraries are used by the components and written out here as the
  libraries define them: GLSL's \<^verbatim>\<open>mix(x, y, a) = x * (1 - a) + y * a\<close>, three.js's
  \<^verbatim>\<open>MathUtils.lerp(x, y, t) = (1 - t) * x + t * y\<close> and \<^verbatim>\<open>Vector3.lerp(v, alpha)\<close>,
  which adds \<^verbatim>\<open>(v.x - this.x) * alpha\<close> to \<^verbatim>\<open>this.x\<close> and likewise for y and z.
\<close>

datatype Vector3 = Vector3 (vx: real) (vy: real) (vz: real)

definition mix :: "real \<Rightarrow> real \<Rightarrow> real \<Rightarrow> real" where
  "mix a b t = a * (1 - t) + b * t"

definition mix3 :: "Vector3 \<Rightarrow> Vector3 \<Rightarrow> real \<Rightarrow> Vector3" where
  "mix3 a b t = Vector3 (mix (vx a) (vx b) t) (mix (vy a) (vy b) t) (mix (vz a) (vz b) t)"

definition lerp :: "real \<Rightarrow> real \<Rightarrow> real \<Rightarrow> real" where
  "lerp a b t = (1 - t) * a + t * b"

definition Vector3_lerp :: "Vector3 \<Rightarrow> Vector3 \<Rightarrow> real \<Rightarrow> Vector3" where
  "Vector3_lerp this v alpha =
     Vector3 (vx this + (vx v - vx this) * alpha)
             (vy this + (vy v - vy this) * alpha)
             (vz this + (vz v - vz this) * alpha)"

subsection \<open>Foliage\<close>

text \<open>
  The two uniforms the component writes, the attributes of one point, and the position
  the vertex shader computes for it before the camera's matrices are applied:
  \<^verbatim>\<open>
  vec3 pos = mix(aTargetPos, aChaosPos, uProgress);
  float wind = sin(uTime * 2.0 + aRandom * 10.0) * 0.1;
  pos.x += wind;\<close>
\<close>

record uniforms =
  uTime :: real
  uProgress :: real

definition FoliageShaderMaterial :: uniforms where
  "FoliageShaderMaterial = \<lparr>uTime = 0, uProgress = 0\<rparr>"

record point =
  aTargetPos :: Vector3
  aChaosPos :: Vector3
  aRandom :: real

definition wind :: "uniforms \<Rightarrow> point \<Rightarrow> real" where
  "wind u p = sin (uTime u * 2.0 + aRandom p * 10.0) * 0.1"

definition vertexShader :: "uniforms \<Rightarrow> point \<Rightarrow> Vector3" where
  "vertexShader u p =
     (let pos = mix3 (aTargetPos p) (aChaosPos p) (uProgress u)
      in Vector3 (vx pos + wind u p) (vy pos) (vz pos))"

text \<open>
  The frame callback of \<^verbatim>\<open>Foliage\<close>; \<open>mounted\<close> says that \<^verbatim>\<open>shaderRef.current\<close> is set.
  \<^verbatim>\<open>
  if (shaderRef.current) {
    shaderRef.current.uniforms.uTime.value = state.clock.elapsedTime;
    shaderRef.current.uniforms.uProgress.value =
      THREE.MathUtils.lerp(shaderRef.current.uniforms.uProgress.value, progress, 0.1);
  }\<close>
\<close>

definition Foliage_useFrame :: "bool \<Rightarrow> real \<Rightarrow> real \<Rightarrow> uniforms \<Rightarrow> uniforms" where
  "Foliage_useFrame mounted elapsedTime progress u =
     (if mounted then \<lparr>uTime = elapsedTime, uProgress = lerp (uProgress u) progress 0.1\<rparr> else u)"

text \<open>
  The attribute buffers hold one point per index below \<^verbatim>\<open>FOLIAGE_COUNT\<close>; \<open>draw i\<close>
  stands for the values the loop computes for index \<open>i\<close> from \<^verbatim>\<open>Math.random()\<close>. The
  buffers are written by this loop only.
\<close>

definition Foliage_points :: "(nat \<Rightarrow> point) \<Rightarrow> point list" where
  "Foliage_points draw = map draw [0..<FOLIAGE_COUNT]"

subsection \<open>Ornaments and fillers\<close>

text \<open>
  The \<^verbatim>\<open>Vector3\<close> objects of these components are mutable and referred to from the
  data, so they live in a store: \<open>cells\<close> maps a reference to the object's current
  value, \<open>fresh\<close> is the next unused reference.
\<close>

record store =
  cells :: "nat \<Rightarrow> Vector3"
  fresh :: nat

definition new_Vector3 :: "Vector3 \<Rightarrow> store \<Rightarrow> nat \<times> store" where
  "new_Vector3 v st = (fresh st, \<lparr>cells = (cells st)(fresh st := v), fresh = fresh st + 1\<rparr>)"

text \<open>\<^verbatim>\<open>v.clone()\<close> makes a new object with the value of \<open>v\<close>.\<close>

definition clone :: "nat \<Rightarrow> store \<Rightarrow> nat \<times> store" where
  "clone r st = new_Vector3 (cells st r) st"

text \<open>
  One element of \<^verbatim>\<open>data\<close>: references to its three vectors, and its speed. (Scale,
  colour and initial rotation do not take part in the motion.)
\<close>

record item =
  targetPos :: nat
  chaosPos :: nat
  currentPos :: nat
  speed :: real

text \<open>
  \<^verbatim>\<open>
  const targetPos = new THREE.Vector3(...);
  const chaosPos = new THREE.Vector3(...);
  return { targetPos, chaosPos, ..., speed: ..., currentPos: chaosPos.clone() };\<close>
  The coordinates and the speed are computed from \<^verbatim>\<open>Math.random()\<close>; they are the
  argument \<open>(t, c, s)\<close>.
\<close>

definition makeItem :: "Vector3 \<times> Vector3 \<times> real \<Rightarrow> store \<Rightarrow> item \<times> store" where
  "makeItem draw st =
     (case draw of (t, c, s) \<Rightarrow>
        let (tr, st1) = new_Vector3 t st;
            (cr, st2) = new_Vector3 c st1;
            (ur, st3) = clone cr st2
        in (\<lparr>targetPos = tr, chaosPos = cr, currentPos = ur, speed = s\<rparr>, st3))"

fun makeData :: "(Vector3 \<times> Vector3 \<times> real) list \<Rightarrow> store \<Rightarrow> item list \<times> store" where
  "makeData [] st = ([], st)"
| "makeData (draw # draws) st =
     (let (d, st1) = makeItem draw st;
          (ds, st2) = makeData draws st1
      in (d # ds, st2))"

text \<open>
  \<^verbatim>\<open>Array.from({ length: ORNAMENT_COUNT }).map((_, i) => {...})\<close>, and the same with
  \<^verbatim>\<open>FILLER_COUNT\<close>, each run once (\<^verbatim>\<open>useMemo(..., [])\<close>).
\<close>

definition Ornaments_data ::
    "(nat \<Rightarrow> Vector3 \<times> Vector3 \<times> real) \<Rightarrow> store \<Rightarrow> item list \<times> store" where
  "Ornaments_data draw st = makeData (map draw [0..<ORNAMENT_COUNT]) st"

definition Fillers_data ::
    "(nat \<Rightarrow> Vector3 \<times> Vector3 \<times> real) \<Rightarrow> store \<Rightarrow> item list \<times> store" where
  "Fillers_data draw st = makeData (map draw [0..<FILLER_COUNT]) st"

text \<open>\<^verbatim>\<open>d.currentPos.lerp(dest, d.speed)\<close> with \<^verbatim>\<open>dest\<close> chosen by the progress.\<close>

definition dest :: "real \<Rightarrow> item \<Rightarrow> nat" where
  "dest progress d = (if progress > 0.5 then chaosPos d else targetPos d)"

definition lerpCurrent :: "real \<Rightarrow> item \<Rightarrow> store \<Rightarrow> store" where
  "lerpCurrent progress d st =
     st\<lparr>cells := (cells st)(currentPos d :=
           Vector3_lerp (cells st (currentPos d)) (cells st (dest progress d)) (speed d))\<rparr>"

text \<open>
  The value that call leaves in \<^verbatim>\<open>d.currentPos\<close>, from the values of the three vectors
  before it.
\<close>

definition moved :: "real \<Rightarrow> item \<Rightarrow> Vector3 \<Rightarrow> Vector3 \<Rightarrow> Vector3 \<Rightarrow> Vector3" where
  "moved progress d cur chaos target =
     Vector3_lerp cur (if progress > 0.5 then chaos else target) (speed d)"

text \<open>
  The body of the loop of the frame callback of \<^verbatim>\<open>Ornaments\<close> for element \<open>d\<close> at
  index \<open>i\<close>; \<open>now\<close> is \<^verbatim>\<open>Date.now()\<close>. The instance is then drawn at
  \<^verbatim>\<open>d.currentPos\<close>.
  \<^verbatim>\<open>
  const dest = progress > 0.5 ? d.chaosPos : d.targetPos;
  d.currentPos.lerp(dest, d.speed);
  if (progress > 0.5) d.currentPos.y += Math.sin(Date.now() * 0.001 + i) * 0.02;\<close>
\<close>

definition bob :: "real \<Rightarrow> nat \<Rightarrow> real" where
  "bob now i = sin (now * 0.001 + real i) * 0.02"

definition addY :: "real \<Rightarrow> Vector3 \<Rightarrow> Vector3" where
  "addY dy v = Vector3 (vx v) (vy v + dy) (vz v)"

definition Ornaments_item :: "real \<Rightarrow> real \<Rightarrow> store \<Rightarrow> nat \<times> item \<Rightarrow> store" where
  "Ornaments_item progress now st e =
     (case e of (i, d) \<Rightarrow>
        let st1 = lerpCurrent progress d st
        in if progress > 0.5
           then st1\<lparr>cells := (cells st1)(currentPos d := addY (bob now i) (cells st1 (currentPos d)))\<rparr>
           else st1)"

definition Ornaments_useFrame :: "bool \<Rightarrow> real \<Rightarrow> real \<Rightarrow> item list \<Rightarrow> store \<Rightarrow> store" where
  "Ornaments_useFrame mounted progress now data st =
     (if \<not> mounted then st else foldl (Ornaments_item progress now) st (enumerate 0 data))"

text \<open>
  The same for \<^verbatim>\<open>Fillers\<close>, whose loop moves the element and nothing more:
  \<^verbatim>\<open>
  const dest = progress > 0.5 ? d.chaosPos : d.targetPos;
  d.currentPos.lerp(dest, d.speed);\<close>
\<close>

definition Fillers_item :: "real \<Rightarrow> store \<Rightarrow> nat \<times> item \<Rightarrow> store" where
  "Fillers_item progress st e = (case e of (i, d) \<Rightarrow> lerpCurrent progress d st)"

definition Fillers_useFrame :: "bool \<Rightarrow> real \<Rightarrow> item list \<Rightarrow> store \<Rightarrow> store" where
  "Fillers_useFrame mounted progress data st =
     (if \<not> mounted then st else foldl (Fillers_item progress) st (enumerate 0 data))"

text \<open>
  A run of frames of a mounted component, each with the progress (and, for the ornaments,
  the clock) it sees.
\<close>

definition Ornaments_frames :: "item list \<Rightarrow> store \<Rightarrow> (real \<times> real) list \<Rightarrow> store" where
  "Ornaments_frames data st fs =
     foldl (\<lambda>s f. Ornaments_useFrame True (fst f) (snd f) data s) st fs"

definition Fillers_frames :: "item list \<Rightarrow> store \<Rightarrow> real list \<Rightarrow> store" where
  "Fillers_frames data st fs = foldl (\<lambda>s progress. Fillers_useFrame True progress data s) st fs"

text \<open>The references an ensemble holds.\<close>

definition refs :: "item list \<Rightarrow> nat list" where
  "refs data = concat (map (\<lambda>d. [targetPos d, chaosPos d, currentPos d]) data)"

text \<open>Sample points, vectors and draws for the examples below.\<close>

definition origin :: Vector3 where
  "origin = Vector3 0 0 0"

definition far :: Vector3 where
  "far = Vector3 10 10 10"

definition sample_point :: point where
  "sample_point = \<lparr>aTargetPos = origin, aChaosPos = far, aRandom = 0\<rparr>"

definition empty_store :: store where
  "empty_store = \<lparr>cells = (\<lambda>r. origin), fresh = 0\<rparr>"

definition sample_draws :: "(Vector3 \<times> Vector3 \<times> real) list" where
  "sample_draws = [(origin, far, 0.5), (Vector3 1 2 3, Vector3 4 5 6, 0.25)]"

definition sample_data :: "item list" where
  "sample_data = fst (makeData sample_draws empty_store)"

definition sample_store :: store where
  "sample_store = snd (makeData sample_draws empty_store)"

section \<open>Properties of the application state\<close>

lemma state_onData: "state (onData prev data) = (if state data = CHAOS then CHAOS else state prev)"
  by (simp add: onData_def)

lemma state_toggleSimulation:
  "state (toggleSimulation prev) = (if state prev = FORMED then CHAOS else FORMED)"
  by (simp add: toggleSimulation_def)

lemma gestures_keep_chaos:
  "list_all isGesture ops \<Longrightarrow> state g = CHAOS \<Longrightarrow> state (foldl applyOp g ops) = CHAOS"
proof (induction ops arbitrary: g)
  case Nil
  then show ?case by simp
next
  case (Cons op ops)
  from Cons.prems(1) obtain d where op: "op = Gesture d"
    by (cases op) (simp_all add: isGesture_def)
  have "state (applyOp g op) = CHAOS"
    using Cons.prems(2) by (simp add: op state_onData)
  moreover have "list_all isGesture ops"
    using Cons.prems(1) by simp
  ultimately show ?case
    using Cons.IH by simp
qed

text \<open>
  Claim C1, as the code has it. The claim says that the application's tree state follows
  the gesture of every callback in both directions. It does so in one direction only: a
  callback with state CHAOS makes the application state CHAOS, a callback with state
  FORMED leaves the application state as it was. The hand coordinates are taken from the
  callback in every case.
\<close>

theorem C1_gesture_callback:
  "(state data = CHAOS \<longrightarrow> state (onData prev data) = CHAOS)
   \<and> (state data = FORMED \<longrightarrow> state (onData prev data) = state prev)
   \<and> handX (onData prev data) = handX data
   \<and> handY (onData prev data) = handY data"
  by (simp add: onData_def)

theorem C1_gesture_callback_witness:
  "state (onData \<lparr>state = FORMED, handX = 0::real, handY = 0\<rparr> \<lparr>state = CHAOS, handX = 1, handY = 2\<rparr>) = CHAOS
   \<and> state (onData \<lparr>state = CHAOS, handX = 0::real, handY = 0\<rparr> \<lparr>state = FORMED, handX = 1, handY = 2\<rparr>) = CHAOS
   \<and> state (onData \<lparr>state = FORMED, handX = 0::real, handY = 0\<rparr> \<lparr>state = FORMED, handX = 1, handY = 2\<rparr>) = FORMED"
  using C1_gesture_callback [of "\<lparr>state = CHAOS, handX = 1::real, handY = 2\<rparr>" "\<lparr>state = FORMED, handX = 0, handY = 0\<rparr>"]
    C1_gesture_callback [of "\<lparr>state = FORMED, handX = 1::real, handY = 2\<rparr>" "\<lparr>state = CHAOS, handX = 0, handY = 0\<rparr>"]
    C1_gesture_callback [of "\<lparr>state = FORMED, handX = 1::real, handY = 2\<rparr>" "\<lparr>state = FORMED, handX = 0, handY = 0\<rparr>"]
  by simp

text \<open>
  Claim C1 as written fails: from the state CHAOS, a callback with state FORMED does not
  make the application state FORMED.
\<close>

theorem C1_counterexample:
  "state (onData \<lparr>state = CHAOS, handX = 0::real, handY = 0\<rparr> \<lparr>state = FORMED, handX = 0, handY = 0\<rparr>) \<noteq> FORMED"
  by (simp add: onData_def)

text \<open>
  Claim C8. Under gesture input alone the application state never goes from CHAOS back to
  FORMED: a gesture callback on a CHAOS state gives a CHAOS state whatever gesture is
  delivered, and so does any sequence of gesture callbacks; an operation that takes CHAOS
  to FORMED is the toggle of the button, and the toggle does take CHAOS to FORMED.
\<close>

theorem C8_gestures_never_restore:
  "(state prev = CHAOS \<longrightarrow> state (onData prev data) = CHAOS)
   \<and> (list_all isGesture ops \<and> state prev = CHAOS \<longrightarrow> state (applyOps prev ops) = CHAOS)
   \<and> (state prev = CHAOS \<and> state (applyOp prev op) = FORMED \<longrightarrow> op = Toggle)
   \<and> (state prev = CHAOS \<longrightarrow> state (applyOp prev Toggle) = FORMED)"
proof (intro conjI impI)
  assume "state prev = CHAOS"
  then show "state (onData prev data) = CHAOS"
    by (simp add: state_onData)
next
  assume "list_all isGesture ops \<and> state prev = CHAOS"
  then show "state (applyOps prev ops) = CHAOS"
    unfolding applyOps_def using gestures_keep_chaos by blast
next
  assume a: "state prev = CHAOS \<and> state (applyOp prev op) = FORMED"
  show "op = Toggle"
  proof (cases op)
    case (Gesture d)
    with a show ?thesis by (auto simp: state_onData split: if_splits)
  next
    case Toggle
    then show ?thesis .
  qed
next
  assume "state prev = CHAOS"
  then show "state (applyOp prev Toggle) = FORMED"
    by (simp add: state_toggleSimulation)
qed

theorem C8_gestures_never_restore_witness:
  "state (onData \<lparr>state = CHAOS, handX = 0::real, handY = 0\<rparr> \<lparr>state = FORMED, handX = 1, handY = 1\<rparr>) = CHAOS
   \<and> state (applyOps \<lparr>state = CHAOS, handX = 0::real, handY = 0\<rparr>
        [Gesture \<lparr>state = FORMED, handX = 1, handY = 1\<rparr>, Gesture \<lparr>state = FORMED, handX = 0, handY = 0\<rparr>]) = CHAOS
   \<and> state (applyOp \<lparr>state = CHAOS, handX = 0::real, handY = 0\<rparr> Toggle) = FORMED"
  using C8_gestures_never_restore
    [of "\<lparr>state = CHAOS, handX = 0::real, handY = 0\<rparr>" "\<lparr>state = FORMED, handX = 1, handY = 1\<rparr>"
        "[Gesture \<lparr>state = FORMED, handX = 1, handY = 1\<rparr>, Gesture \<lparr>state = FORMED, handX = 0, handY = 0\<rparr>]"
        Toggle]
  by (simp add: isGesture_def)

text \<open>
  Claim C10. \<^verbatim>\<open>toggleSimulation\<close> swaps FORMED and CHAOS, applying it twice gives the
  gesture data back, and it leaves \<^verbatim>\<open>handX\<close> and \<^verbatim>\<open>handY\<close> unchanged.
\<close>

theorem C10_toggleSimulation:
  "toggleSimulation (toggleSimulation g) = g
   \<and> state (toggleSimulation g) = (case state g of FORMED \<Rightarrow> CHAOS | CHAOS \<Rightarrow> FORMED)
   \<and> state (toggleSimulation g) \<noteq> state g
   \<and> handX (toggleSimulation g) = handX g
   \<and> handY (toggleSimulation g) = handY g"
  by (cases "state g") (simp_all add: toggleSimulation_def)

section \<open>The sizes of the ensembles\<close>

lemma length_makeData: "length (fst (makeData draws st)) = length draws"
  by (induction draws arbitrary: st) (simp_all add: split_beta Let_def)

text \<open>
  Claim C5. The four counts are 15000, 400, 1200 and 30; the foliage has 15000 points, the
  ornaments 400 elements, the fillers 1200 and the polaroids 30 items, whatever the random
  draws and the photos are; together that is 16630, which is at least 15000.
\<close>

theorem C5_ensemble_sizes:
  "FOLIAGE_COUNT = 15000 \<and> ORNAMENT_COUNT = 400 \<and> FILLER_COUNT = 1200 \<and> POLAROID_COUNT = 30
   \<and> length (Foliage_points draw) = 15000
   \<and> length (fst (Ornaments_data draw1 st1)) = 400
   \<and> length (fst (Fillers_data draw2 st2)) = 1200
   \<and> length (Polaroids photos) = 30
   \<and> length (Foliage_points draw) + length (fst (Ornaments_data draw1 st1))
       + length (fst (Fillers_data draw2 st2)) + length (Polaroids photos) = 16630
   \<and> FOLIAGE_COUNT + ORNAMENT_COUNT + FILLER_COUNT + POLAROID_COUNT = 16630
   \<and> 15000 \<le> FOLIAGE_COUNT + ORNAMENT_COUNT + FILLER_COUNT + POLAROID_COUNT"
  by (simp add: FOLIAGE_COUNT_def ORNAMENT_COUNT_def FILLER_COUNT_def POLAROID_COUNT_def
      Foliage_points_def Ornaments_data_def Fillers_data_def Polaroids_def length_makeData)

section \<open>The control signal stays between 0 and 1\<close>

lemma animate_toward_above: "p \<le> t \<Longrightarrow> p \<le> animate t p \<and> animate t p \<le> t"
proof -
  assume le: "p \<le> t"
  have "p \<le> p + (t - p) * 0.05" "p + (t - p) * 0.05 \<le> t"
    using le by (simp_all add: field_simps)
  with le show ?thesis
    by (simp only: animate_def Let_def split: if_splits) simp
qed

lemma animate_toward_below: "t \<le> p \<Longrightarrow> t \<le> animate t p \<and> animate t p \<le> p"
proof -
  assume le: "t \<le> p"
  have "t \<le> p + (t - p) * 0.05" "p + (t - p) * 0.05 \<le> p"
    using le by (simp_all add: field_simps)
  with le show ?thesis
    by (simp only: animate_def Let_def split: if_splits) simp
qed

lemma animate_unit: "0 \<le> p \<Longrightarrow> p \<le> 1 \<Longrightarrow> 0 \<le> animate (target_of st) p \<and> animate (target_of st) p \<le> 1"
  using animate_toward_above [of p 1] animate_toward_below [of 0 p]
  by (cases st) (simp_all add: target_of_def)

lemma run_frames_unit: "0 \<le> p \<Longrightarrow> p \<le> 1 \<Longrightarrow> 0 \<le> run_frames p sts \<and> run_frames p sts \<le> 1"
proof (induction sts arbitrary: p)
  case Nil
  then show ?case by (simp add: run_frames_def)
next
  case (Cons st sts)
  have "0 \<le> animate (target_of st) p \<and> animate (target_of st) p \<le> 1"
    using Cons.prems by (rule animate_unit)
  then have "0 \<le> run_frames (animate (target_of st) p) sts \<and> run_frames (animate (target_of st) p) sts \<le> 1"
    using Cons.IH by blast
  then show ?case by (simp add: run_frames_def)
qed

lemma run_frames_snoc: "run_frames p (sts @ [st]) = animate (target_of st) (run_frames p sts)"
  by (simp add: run_frames_def)

lemma run_frames_replicate_Suc:
  "run_frames p (replicate (Suc n) st) = animate (target_of st) (run_frames p (replicate n st))"
proof -
  have "replicate (Suc n) st = replicate n st @ [st]"
    by (simp add: replicate_append_same)
  then show ?thesis
    by (simp only: run_frames_snoc)
qed

lemma run_frames_replicate_above:
  "p \<le> target_of st \<Longrightarrow> run_frames p (replicate n st) \<le> target_of st"
proof (induction n)
  case 0
  then show ?case by (simp add: run_frames_def)
next
  case (Suc n)
  then show ?case
    using animate_toward_above [of "run_frames p (replicate n st)" "target_of st"]
    by (simp only: run_frames_replicate_Suc)
qed

lemma run_frames_replicate_below:
  "target_of st \<le> p \<Longrightarrow> target_of st \<le> run_frames p (replicate n st)"
proof (induction n)
  case 0
  then show ?case by (simp add: run_frames_def)
next
  case (Suc n)
  then show ?case
    using animate_toward_below [of "target_of st" "run_frames p (replicate n st)"]
    by (simp only: run_frames_replicate_Suc)
qed

text \<open>
  Claim C4. The control signal starts at 0 and is in the closed interval from 0 to 1 after
  every run of animation steps, whatever the tree state is at each step. A step snaps the
  signal to the target (1 for CHAOS, 0 for FORMED) when it is closer than 0.001 and
  otherwise replaces it with \<open>p + (target - p) * 0.05\<close>. A signal at or below the
  target does not decrease and does not pass the target, one at or above it does not
  increase and does not pass it; so while the tree state is fixed the signal is monotone
  from step to step.
\<close>

theorem C4_progress:
  "progress_init = 0
   \<and> 0 \<le> run_frames progress_init sts \<and> run_frames progress_init sts \<le> 1
   \<and> target_of CHAOS = 1 \<and> target_of FORMED = 0
   \<and> run_frames p (sts @ [st]) = animate (target_of st) (run_frames p sts)
   \<and> (\<bar>target_of st - p\<bar> < 0.001 \<longrightarrow> animate (target_of st) p = target_of st)
   \<and> (\<not> \<bar>target_of st - p\<bar> < 0.001 \<longrightarrow> animate (target_of st) p = p + (target_of st - p) * 0.05)
   \<and> (p \<le> target_of st \<longrightarrow> p \<le> animate (target_of st) p \<and> animate (target_of st) p \<le> target_of st)
   \<and> (target_of st \<le> p \<longrightarrow> target_of st \<le> animate (target_of st) p \<and> animate (target_of st) p \<le> p)
   \<and> (p \<le> target_of st \<longrightarrow>
         run_frames p (replicate n st) \<le> run_frames p (replicate (Suc n) st)
         \<and> run_frames p (replicate (Suc n) st) \<le> target_of st)
   \<and> (target_of st \<le> p \<longrightarrow>
         run_frames p (replicate (Suc n) st) \<le> run_frames p (replicate n st)
         \<and> target_of st \<le> run_frames p (replicate (Suc n) st))"
proof (intro conjI impI)
  show "progress_init = 0"
    by (simp add: progress_init_def)
  show "0 \<le> run_frames progress_init sts" "run_frames progress_init sts \<le> 1"
    using run_frames_unit [of progress_init sts] by (simp_all add: progress_init_def)
  show "target_of CHAOS = 1" "target_of FORMED = 0"
    by (simp_all add: target_of_def)
  show "run_frames p (sts @ [st]) = animate (target_of st) (run_frames p sts)"
    by (rule run_frames_snoc)
next
  assume "\<bar>target_of st - p\<bar> < 0.001"
  then show "animate (target_of st) p = target_of st"
    by (simp add: animate_def)
next
  assume "\<not> \<bar>target_of st - p\<bar> < 0.001"
  then show "animate (target_of st) p = p + (target_of st - p) * 0.05"
    by (simp add: animate_def)
next
  assume le: "p \<le> target_of st"
  show "p \<le> animate (target_of st) p" "animate (target_of st) p \<le> target_of st"
    using animate_toward_above [OF le] by simp_all
  show "run_frames p (replicate n st) \<le> run_frames p (replicate (Suc n) st)"
    using animate_toward_above [OF run_frames_replicate_above [OF le, of n]]
    by (simp only: run_frames_replicate_Suc)
  show "run_frames p (replicate (Suc n) st) \<le> target_of st"
    using le by (rule run_frames_replicate_above)
next
  assume ge: "target_of st \<le> p"
  show "target_of st \<le> animate (target_of st) p" "animate (target_of st) p \<le> p"
    using animate_toward_below [OF ge] by simp_all
  show "run_frames p (replicate (Suc n) st) \<le> run_frames p (replicate n st)"
    using animate_toward_below [OF run_frames_replicate_below [OF ge, of n]]
    by (simp only: run_frames_replicate_Suc)
  show "target_of st \<le> run_frames p (replicate (Suc n) st)"
    using ge by (rule run_frames_replicate_below)
qed

theorem C4_progress_witness:
  "run_frames 0 [CHAOS] = 0.05
   \<and> animate (target_of CHAOS) 0.9995 = 1
   \<and> animate (target_of FORMED) 0.5 = 0.475
   \<and> run_frames 0.5 (replicate 1 FORMED) \<le> run_frames 0.5 (replicate 0 FORMED)
   \<and> run_frames 0.5 (replicate 0 CHAOS) \<le> run_frames 0.5 (replicate 1 CHAOS)"
  using C4_progress [of "[]" 0 CHAOS 0]
    C4_progress [of "[]" "0.9995" CHAOS 0]
    C4_progress [of "[]" "0.5" FORMED 0]
    C4_progress [of "[]" "0.5" CHAOS 0]
  by (simp add: run_frames_def target_of_def)

section \<open>Polaroids and uploaded photos\<close>

lemma images_nonempty: "images photos \<noteq> []"
  by (simp add: images_def POLAROID_COUNT_def)

lemma image_at_mod: "imgs \<noteq> [] \<Longrightarrow> image_at imgs i = Some (imgs ! (i mod length imgs))"
  by (simp add: image_at_def Let_def)

lemma Polaroids_nth:
  "i < POLAROID_COUNT \<Longrightarrow>
   Polaroids photos ! i = (i, Some (images photos ! (i mod length (images photos))))"
  by (simp add: Polaroids_def image_at_mod images_nonempty)

lemma handleFileChange_all_read:
  assumes "fileList \<noteq> []" and "\<forall>f \<in> set fileList. readAsDataURL f = Some (url f)"
  shows "handleFileChange readAsDataURL (Some fileList) old = map url fileList"
  using assms by (simp add: handleFileChange_def list_all_iff)

lemma distinct_decimals: "distinct (map decimal [0..<30])"
  by code_simp

lemma distinct_placeholders: "distinct (map placeholder [0..<POLAROID_COUNT])"
proof -
  have "distinct (map decimal [0..<30])"
    by (rule distinct_decimals)
  then show ?thesis
    by (simp add: POLAROID_COUNT_def placeholder_def distinct_map inj_on_def)
qed

text \<open>
  Claim C6. After an upload of at least one file in which every file is read,
  \<^verbatim>\<open>customPhotos\<close> is the list of the files' data URLs in the order of the selection;
  30 polaroid items are rendered whatever the number \<open>k\<close> of photos is, and item \<open>i\<close> shows
  photo \<open>i mod k\<close>. An empty or missing selection leaves \<^verbatim>\<open>customPhotos\<close> as it is.
  With no photos, item \<open>i\<close> shows the placeholder URL that ends in the decimal digits of
  \<open>i\<close>, and the 30 placeholder URLs are distinct.
\<close>

theorem C6_polaroids:
  "(fileList \<noteq> [] \<and> (\<forall>f \<in> set fileList. readAsDataURL f = Some (url f)) \<longrightarrow>
      handleFileChange readAsDataURL (Some fileList) old = map url fileList
      \<and> length (Polaroids (map url fileList)) = POLAROID_COUNT
      \<and> (\<forall>i < POLAROID_COUNT.
            Polaroids (map url fileList) ! i = (i, Some (url (fileList ! (i mod length fileList))))))
   \<and> handleFileChange readAsDataURL None old = old
   \<and> handleFileChange readAsDataURL (Some []) old = old
   \<and> POLAROID_COUNT = 30
   \<and> customPhotos_init = []
   \<and> length (Polaroids customPhotos_init) = POLAROID_COUNT
   \<and> (\<forall>i < POLAROID_COUNT. Polaroids customPhotos_init ! i = (i, Some (placeholder i)))
   \<and> distinct (map snd (Polaroids customPhotos_init))
   \<and> placeholder j = ''https://picsum.photos/300/300?random='' @ decimal j"
proof (intro conjI impI allI)
  assume a: "fileList \<noteq> [] \<and> (\<forall>f \<in> set fileList. readAsDataURL f = Some (url f))"
  show "handleFileChange readAsDataURL (Some fileList) old = map url fileList"
    using a handleFileChange_all_read [of fileList readAsDataURL url old] by blast
  show "length (Polaroids (map url fileList)) = POLAROID_COUNT"
    by (simp add: Polaroids_def)
  fix i
  assume i: "i < POLAROID_COUNT"
  have "images (map url fileList) = map url fileList"
    using a by (simp add: images_def)
  moreover have "i mod length fileList < length fileList"
    using a by simp
  ultimately show "Polaroids (map url fileList) ! i = (i, Some (url (fileList ! (i mod length fileList))))"
    using i by (simp add: Polaroids_nth)
next
  show "handleFileChange readAsDataURL None old = old"
    "handleFileChange readAsDataURL (Some []) old = old"
    by (simp_all add: handleFileChange_def)
  show "POLAROID_COUNT = 30"
    by (simp add: POLAROID_COUNT_def)
  show "customPhotos_init = []"
    by (simp add: customPhotos_init_def)
  show "length (Polaroids customPhotos_init) = POLAROID_COUNT"
    by (simp add: Polaroids_def)
  show "placeholder j = ''https://picsum.photos/300/300?random='' @ decimal j"
    by (simp add: placeholder_def)
next
  fix i
  assume i: "i < POLAROID_COUNT"
  have "images customPhotos_init = map placeholder [0..<POLAROID_COUNT]"
    by (simp add: images_def customPhotos_init_def)
  then show "Polaroids customPhotos_init ! i = (i, Some (placeholder i))"
    using i by (simp add: Polaroids_nth)
next
  have "map snd (Polaroids customPhotos_init) = map Some (map placeholder [0..<POLAROID_COUNT])"
  proof (rule nth_equalityI)
    show "length (map snd (Polaroids customPhotos_init)) = length (map Some (map placeholder [0..<POLAROID_COUNT]))"
      by (simp add: Polaroids_def)
  next
    fix i
    assume "i < length (map snd (Polaroids customPhotos_init))"
    then have i: "i < POLAROID_COUNT"
      by (simp add: Polaroids_def)
    have "images customPhotos_init = map placeholder [0..<POLAROID_COUNT]"
      by (simp add: images_def customPhotos_init_def)
    then have "Polaroids customPhotos_init ! i = (i, Some (placeholder i))"
      using i by (simp add: Polaroids_nth)
    moreover have "i < length (Polaroids customPhotos_init)"
      using i by (simp add: Polaroids_def)
    ultimately show "map snd (Polaroids customPhotos_init) ! i = map Some (map placeholder [0..<POLAROID_COUNT]) ! i"
      using i by simp
  qed
  then show "distinct (map snd (Polaroids customPhotos_init))"
    using distinct_placeholders by (simp only: distinct_map) (simp add: inj_on_def)
qed

theorem C6_polaroids_witness:
  "handleFileChange sample_reader (Some [7, 8]) [] = [sample_url 7, sample_url 8]
   \<and> Polaroids (map sample_url [7, 8]) ! 3 = (3, Some (sample_url 8))
   \<and> Polaroids customPhotos_init ! 29 = (29, Some (placeholder 29))"
proof -
  note inst = C6_polaroids [of "[7, 8]" sample_reader sample_url "[]" 0]
  have files: "[7, 8] \<noteq> [] \<and> (\<forall>f \<in> set [7, 8]. sample_reader f = Some (sample_url f))"
    by (simp add: sample_reader_def)
  have three: "3 < POLAROID_COUNT" and twentynine: "29 < POLAROID_COUNT"
    by (simp_all add: POLAROID_COUNT_def)
  from inst files
  have "handleFileChange sample_reader (Some [7, 8]) [] = map sample_url [7, 8]"
    by blast
  moreover from inst files three
  have "Polaroids (map sample_url [7, 8]) ! 3 = (3, Some (sample_url ([7, 8] ! (3 mod length [7, 8::nat]))))"
    by blast
  moreover from inst twentynine
  have "Polaroids customPhotos_init ! 29 = (29, Some (placeholder 29))"
    by blast
  moreover have "[7, 8] ! (3 mod length [7, 8::nat]) = (8::nat)"
    by code_simp
  ultimately show ?thesis
    by simp
qed

section \<open>From the model's text to the callback\<close>

lemma gestureOf_JObj:
  "gestureOf (JObj props) =
     Inr \<lparr>state = stateOf (map_of props ''state''),
          handX = numberOr0 (map_of props ''x''),
          handY = numberOr0 (map_of props ''y'')\<rparr>"
  by (simp add: gestureOf_def)

lemma gestureOf_JNull: "gestureOf JNull = Inl TypeError"
  by (simp add: gestureOf_def)

lemma gestureOf_other:
  "v \<noteq> JNull \<Longrightarrow> \<forall>props. v \<noteq> JObj props \<Longrightarrow>
   gestureOf v = Inr \<lparr>state = FORMED, handX = 0, handY = 0\<rparr>"
  by (cases v) (simp_all add: gestureOf_def stateOf_def numberOr0_def)

lemma tryCatch_not_isl: "\<not> isl (tryCatch body)"
  by (cases body) (simp_all add: tryCatch_def)

lemma onPart_not_isl: "\<not> isl (onPart JSON_parse part)"
  by (cases "part") (simp_all add: onPart_def tryCatch_not_isl)

lemma onResponse_not_isl: "\<not> isl (onResponse JSON_parse response_text)"
  by (simp add: onResponse_def tryCatch_not_isl)

lemma matchBraces_starts: "matchBraces text = Some m \<Longrightarrow> \<exists>body. m = CHR ''{'' # body"
  by (induction "text") (auto split: if_splits option.splits)

lemma matchBraces_nonempty: "matchBraces text = Some m \<Longrightarrow> text \<noteq> []"
  by (cases "text") simp_all

lemma parseAndReport_Some:
  "parseAndReport JSON_parse text = Inr (Some data) \<Longrightarrow>
   \<exists>v. JSON_parse text = Inr v \<and> gestureOf v = Inr data"
  by (auto simp: parseAndReport_def split: sum.splits)

lemma onPart_Some:
  "onPart JSON_parse part = Inr (Some data) \<Longrightarrow>
   \<exists>text m v. part = Some text \<and> matchBraces text = Some m \<and> JSON_parse m = Inr v
     \<and> gestureOf v = Inr data"
  by (auto simp: onPart_def tryCatch_def parseAndReport_def split: option.splits if_splits sum.splits)

text \<open>
  Claim C9, as the code has it. In both modes a text from which a JSON object is
  extracted gives one call of the callback, with state CHAOS exactly when the object's
  \<^verbatim>\<open>state\<close> is the string \<^verbatim>\<open>CHAOS\<close> (FORMED for any other or missing value) and with
  \<^verbatim>\<open>handX\<close>, \<^verbatim>\<open>handY\<close> the object's \<^verbatim>\<open>x\<close>, \<^verbatim>\<open>y\<close> when these are numbers and 0
  otherwise. No exception leaves either handler. There is no call when there is no
  text, when the streaming text has no \<^verbatim>\<open>{...}\<close> on one line, when \<^verbatim>\<open>JSON.parse\<close>
  throws or when it returns \<^verbatim>\<open>null\<close>. In streaming mode a call is made for a parsed
  object only, \<^verbatim>\<open>JSON.parse\<close> returning nothing but objects on texts that start with
  \<^verbatim>\<open>{\<close>. In polling mode a text that parses to a value that is neither \<^verbatim>\<open>null\<close> nor
  an object does give a call, with FORMED, 0 and 0.
\<close>

theorem C9_text_to_callback:
  fixes JSON_parse :: "string \<Rightarrow> js_error + ('n::zero) json"
  shows
  "(payload \<noteq> [] \<and> matchBraces payload = Some m \<and> JSON_parse m = Inr (JObj props) \<longrightarrow>
      onPart JSON_parse (Some payload) =
        Inr (Some \<lparr>state = (if map_of props ''state'' = Some (JStr ''CHAOS'') then CHAOS else FORMED),
                   handX = numberOr0 (map_of props ''x''),
                   handY = numberOr0 (map_of props ''y'')\<rparr>))
   \<and> (payload \<noteq> [] \<and> JSON_parse payload = Inr (JObj props) \<longrightarrow>
      onResponse JSON_parse (Some payload) =
        Inr (Some \<lparr>state = (if map_of props ''state'' = Some (JStr ''CHAOS'') then CHAOS else FORMED),
                   handX = numberOr0 (map_of props ''x''),
                   handY = numberOr0 (map_of props ''y'')\<rparr>))
   \<and> numberOr0 (Some (JNum n)) = n
   \<and> ((\<forall>k. v \<noteq> Some (JNum k)) \<longrightarrow> numberOr0 v = (0::'n))
   \<and> \<not> isl (onPart JSON_parse prt)
   \<and> \<not> isl (onResponse JSON_parse r)
   \<and> onPart JSON_parse None = Inr None
   \<and> onPart JSON_parse (Some []) = Inr None
   \<and> onResponse JSON_parse None = Inr None
   \<and> onResponse JSON_parse (Some []) = Inr None
   \<and> (matchBraces payload = None
        \<or> (matchBraces payload = Some m \<and> (JSON_parse m = Inl e \<or> JSON_parse m = Inr JNull)) \<longrightarrow>
      onPart JSON_parse (Some payload) = Inr None)
   \<and> (JSON_parse payload = Inl e \<or> JSON_parse payload = Inr JNull \<longrightarrow>
      onResponse JSON_parse (Some payload) = Inr None)
   \<and> ((\<forall>t w. JSON_parse (CHR ''{'' # t) = Inr w \<longrightarrow> (\<exists>ps. w = JObj ps))
        \<and> onPart JSON_parse prt = Inr (Some data) \<longrightarrow>
      (\<exists>t m' ps. prt = Some t \<and> matchBraces t = Some m' \<and> JSON_parse m' = Inr (JObj ps)))
   \<and> (payload \<noteq> [] \<and> JSON_parse payload = Inr j \<and> j \<noteq> JNull \<and> (\<forall>ps. j \<noteq> JObj ps) \<longrightarrow>
      onResponse JSON_parse (Some payload) = Inr (Some \<lparr>state = FORMED, handX = 0, handY = 0\<rparr>))"
proof (intro conjI impI)
  assume "payload \<noteq> [] \<and> matchBraces payload = Some m \<and> JSON_parse m = Inr (JObj props)"
  then show "onPart JSON_parse (Some payload) =
        Inr (Some \<lparr>state = (if map_of props ''state'' = Some (JStr ''CHAOS'') then CHAOS else FORMED),
                   handX = numberOr0 (map_of props ''x''),
                   handY = numberOr0 (map_of props ''y'')\<rparr>)"
    by (simp add: onPart_def tryCatch_def parseAndReport_def gestureOf_JObj stateOf_def)
next
  assume "payload \<noteq> [] \<and> JSON_parse payload = Inr (JObj props)"
  then show "onResponse JSON_parse (Some payload) =
        Inr (Some \<lparr>state = (if map_of props ''state'' = Some (JStr ''CHAOS'') then CHAOS else FORMED),
                   handX = numberOr0 (map_of props ''x''),
                   handY = numberOr0 (map_of props ''y'')\<rparr>)"
    by (simp add: onResponse_def tryCatch_def parseAndReport_def gestureOf_JObj stateOf_def)
next
  show "numberOr0 (Some (JNum n)) = n"
    by (simp add: numberOr0_def)
next
  assume "\<forall>k. v \<noteq> Some (JNum k)"
  then show "numberOr0 v = (0::'n)"
    by (auto simp: numberOr0_def split: option.splits json.splits)
next
  show "\<not> isl (onPart JSON_parse prt)"
    by (rule onPart_not_isl)
  show "\<not> isl (onResponse JSON_parse r)"
    by (rule onResponse_not_isl)
  show "onPart JSON_parse None = Inr None" "onPart JSON_parse (Some []) = Inr None"
    by (simp_all add: onPart_def)
  show "onResponse JSON_parse None = Inr None" "onResponse JSON_parse (Some []) = Inr None"
    by (simp_all add: onResponse_def tryCatch_def)
next
  assume "matchBraces payload = None
        \<or> (matchBraces payload = Some m \<and> (JSON_parse m = Inl e \<or> JSON_parse m = Inr JNull))"
  then show "onPart JSON_parse (Some payload) = Inr None"
    by (auto simp: onPart_def tryCatch_def parseAndReport_def gestureOf_JNull)
next
  assume "JSON_parse payload = Inl e \<or> JSON_parse payload = Inr JNull"
  then show "onResponse JSON_parse (Some payload) = Inr None"
    by (auto simp: onResponse_def tryCatch_def parseAndReport_def gestureOf_JNull)
next
  assume a: "(\<forall>t w. JSON_parse (CHR ''{'' # t) = Inr w \<longrightarrow> (\<exists>ps. w = JObj ps))
        \<and> onPart JSON_parse prt = Inr (Some data)"
  then obtain t m' w where t: "prt = Some t" "matchBraces t = Some m'" "JSON_parse m' = Inr w"
    using onPart_Some [of JSON_parse prt data] by blast
  from t(2) obtain body where "m' = CHR ''{'' # body"
    using matchBraces_starts by blast
  with a t(3) obtain ps where "w = JObj ps"
    by blast
  with t show "\<exists>t m' ps. prt = Some t \<and> matchBraces t = Some m' \<and> JSON_parse m' = Inr (JObj ps)"
    by blast
next
  assume "payload \<noteq> [] \<and> JSON_parse payload = Inr j \<and> j \<noteq> JNull \<and> (\<forall>ps. j \<noteq> JObj ps)"
  then show "onResponse JSON_parse (Some payload) = Inr (Some \<lparr>state = FORMED, handX = 0, handY = 0\<rparr>)"
    by (simp add: onResponse_def tryCatch_def parseAndReport_def gestureOf_other)
qed

text \<open>
  Claim C9 as written fails in polling mode: the text \<^verbatim>\<open>5\<close> holds no JSON object, and
  for it the callback is called.
\<close>

theorem C9_counterexample:
  "sample_parse ''5'' = Inr (JNum 5)
   \<and> onResponse sample_parse (Some ''5'') = Inr (Some \<lparr>state = FORMED, handX = 0, handY = 0\<rparr>)"
  by (simp add: sample_parse_def sample_object_def onResponse_def tryCatch_def
      parseAndReport_def gestureOf_def stateOf_def numberOr0_def)

lemma sample_parse_object:
  "sample_parse sample_object =
     Inr (JObj [(''state'', JStr ''CHAOS''), (''x'', JNum 0.5), (''y'', JStr ''up'')])"
  by (simp add: sample_parse_def)

lemma sample_parse_braces: "sample_parse (CHR ''{'' # t) = Inr w \<Longrightarrow> \<exists>ps. w = JObj ps"
  by (auto simp: sample_parse_def split: if_splits)

lemma matchBraces_sample: "matchBraces (''ok '' @ sample_object @ '' end'') = Some sample_object"
  unfolding sample_object_def by code_simp

lemma matchBraces_oops: "matchBraces ''{oops}'' = Some ''{oops}''"
  by code_simp

lemma sample_parse_oops: "sample_parse ''{oops}'' = Inl SyntaxError"
  by (simp add: sample_parse_def sample_object_def)

theorem C9_text_to_callback_witness:
  "onPart sample_parse (Some (''ok '' @ sample_object @ '' end'')) =
     Inr (Some \<lparr>state = CHAOS, handX = 0.5, handY = 0\<rparr>)
   \<and> onResponse sample_parse (Some sample_object) =
     Inr (Some \<lparr>state = CHAOS, handX = 0.5, handY = 0\<rparr>)
   \<and> onPart sample_parse (Some ''{oops}'') = Inr None
   \<and> onResponse sample_parse (Some ''null'') = Inr None
   \<and> (\<exists>ps. sample_parse sample_object = Inr (JObj ps))
   \<and> onResponse sample_parse (Some ''5'') = Inr (Some \<lparr>state = FORMED, handX = 0, handY = 0\<rparr>)"
proof -
  let ?props = "[(''state'', JStr ''CHAOS''), (''x'', JNum 0.5), (''y'', JStr ''up'')] :: (string \<times> real json) list"
  let ?payload = "''ok '' @ sample_object @ '' end''"
  let ?data = "\<lparr>state = CHAOS, handX = 0.5::real, handY = 0\<rparr>"
  let ?read = "\<lparr>state = (if map_of ?props ''state'' = Some (JStr ''CHAOS'') then CHAOS else FORMED),
                handX = numberOr0 (map_of ?props ''x''),
                handY = numberOr0 (map_of ?props ''y'')\<rparr>"
  have nonempty: "?payload \<noteq> []" "sample_object \<noteq> []"
    by (simp_all add: sample_object_def)
  have fields: "map_of ?props ''state'' = Some (JStr ''CHAOS'')" "map_of ?props ''x'' = Some (JNum 0.5)"
    "map_of ?props ''y'' = Some (JStr ''up'')"
    by simp_all
  have half: "numberOr0 (Some (JNum (0.5::real))) = 0.5"
    by (rule C9_text_to_callback [where JSON_parse = sample_parse and n = "0.5", THEN conjunct2, THEN conjunct2, THEN conjunct1])
  have zero: "numberOr0 (Some (JStr ''up'' :: real json)) = 0"
    using C9_text_to_callback [where JSON_parse = sample_parse and v = "Some (JStr ''up'')", THEN conjunct2, THEN conjunct2, THEN conjunct2, THEN conjunct1]
    by simp
  have read: "?read = ?data"
    by (simp only: fields zero half) simp
  have "onPart sample_parse (Some ?payload) = Inr (Some ?read)"
    using C9_text_to_callback [where JSON_parse = sample_parse and payload = ?payload
        and m = sample_object and props = ?props, THEN conjunct1]
      nonempty matchBraces_sample sample_parse_object
    by (simp only: simp_thms)
  then have streaming: "onPart sample_parse (Some ?payload) = Inr (Some ?data)"
    by (simp only: read)
  have "onResponse sample_parse (Some sample_object) = Inr (Some ?read)"
    using C9_text_to_callback [where JSON_parse = sample_parse and payload = sample_object
        and props = ?props, THEN conjunct2, THEN conjunct1]
      nonempty sample_parse_object
    by (simp only: simp_thms)
  then have polling: "onResponse sample_parse (Some sample_object) = Inr (Some ?data)"
    by (simp only: read)
  have failing: "onPart sample_parse (Some ''{oops}'') = Inr None"
    using C9_text_to_callback [where JSON_parse = sample_parse and payload = "''{oops}''"
        and m = "''{oops}''" and e = SyntaxError, THEN conjunct2, THEN conjunct2, THEN conjunct2, THEN conjunct2, THEN conjunct2, THEN conjunct2, THEN conjunct2, THEN conjunct2, THEN conjunct2, THEN conjunct2, THEN conjunct1]
      matchBraces_oops sample_parse_oops
    by (simp only: simp_thms)
  have null: "onResponse sample_parse (Some ''null'') = Inr None"
  proof -
    have "sample_parse ''null'' = Inr JNull"
      by (simp add: sample_parse_def sample_object_def)
    then show ?thesis
      using C9_text_to_callback [where JSON_parse = sample_parse and payload = "''null''", THEN conjunct2, THEN conjunct2, THEN conjunct2, THEN conjunct2, THEN conjunct2, THEN conjunct2, THEN conjunct2, THEN conjunct2, THEN conjunct2, THEN conjunct2, THEN conjunct2, THEN conjunct1]
      by (simp only: simp_thms)
  qed
  have object: "\<exists>ps. sample_parse sample_object = Inr (JObj ps)"
  proof -
    have braces: "\<forall>t w. sample_parse (CHR ''{'' # t) = Inr w \<longrightarrow> (\<exists>ps. w = JObj ps)"
      using sample_parse_braces by blast
    have "\<exists>t m' ps. Some ?payload = Some t \<and> matchBraces t = Some m' \<and> sample_parse m' = Inr (JObj ps)"
      using C9_text_to_callback [where JSON_parse = sample_parse and prt = "Some ?payload"
          and data = ?data, THEN conjunct2, THEN conjunct2, THEN conjunct2, THEN conjunct2, THEN conjunct2, THEN conjunct2, THEN conjunct2, THEN conjunct2, THEN conjunct2, THEN conjunct2, THEN conjunct2, THEN conjunct2, THEN conjunct1] braces streaming
      by (simp only: simp_thms)
    then obtain m' ps where "matchBraces ?payload = Some m'" "sample_parse m' = Inr (JObj ps)"
      by blast
    then have "sample_parse sample_object = Inr (JObj ps)"
      by (simp only: matchBraces_sample option.inject)
    then show ?thesis ..
  qed
  have number: "onResponse sample_parse (Some ''5'') = Inr (Some \<lparr>state = FORMED, handX = 0, handY = 0\<rparr>)"
  proof -
    have five: "sample_parse ''5'' = Inr (JNum 5)"
      by (simp add: sample_parse_def sample_object_def)
    show ?thesis
      using C9_text_to_callback [where JSON_parse = sample_parse and payload = "''5''"
          and j = "JNum 5", THEN conjunct2, THEN conjunct2, THEN conjunct2, THEN conjunct2, THEN conjunct2, THEN conjunct2, THEN conjunct2, THEN conjunct2, THEN conjunct2, THEN conjunct2, THEN conjunct2, THEN conjunct2, THEN conjunct2] five
      by simp
  qed
  from streaming polling failing null object number show ?thesis
    by (intro conjI)
qed

section \<open>The fallback to polling\<close>


lemma switchToFallback_active: "isFallbackActive w \<Longrightarrow> switchToFallback v cb i w = w"
  by (simp add: switchToFallback_def)

lemma handles_ok_truthy: "handles_ok w \<Longrightarrow> truthy (intervalId w) = (intervalId w \<noteq> None)"
  by (auto simp: handles_ok_def truthy_def split: option.splits)

lemma switchToFallback_fields:
  assumes "\<not> isFallbackActive w" and "handles_ok w"
  shows "isFallbackActive (switchToFallback v cb i w)"
    and "session (switchToFallback v cb i w) = None"
    and "intervalId (switchToFallback v cb i w) = Some (nextHandle w)"
    and "ai (switchToFallback v cb i w) = ai w"
    and "ctx (switchToFallback v cb i w) = ctx w"
    and "nextHandle (switchToFallback v cb i w) = nextHandle w + 1"
    and "closed (switchToFallback v cb i w) = closed w @ (case session w of None \<Rightarrow> [] | Some s \<Rightarrow> [s])"
    and "intervals (switchToFallback v cb i w) =
          filter (\<lambda>t. Some (fst t) \<noteq> intervalId w) (intervals w) @ [(nextHandle w, 1500, PollingFallback v cb i)]"
  using assms
  by (auto simp: switchToFallback_def handles_ok_truthy Let_def startPollingFallback_def
      setInterval_def clearInterval_def split: option.splits)

lemma handles_ok_newService: "handles_ok (newService has2d)"
  by (simp add: handles_ok_def newService_def)

lemma handles_ok_setInterval:
  "handles_ok w \<Longrightarrow> handles_ok ((snd (setInterval h delay w))\<lparr>intervalId := Some (fst (setInterval h delay w))\<rparr>)"
  by (auto simp: handles_ok_def setInterval_def list_all_iff split: option.splits)

lemma handles_ok_clearInterval: "handles_ok w \<Longrightarrow> handles_ok (clearInterval h w)"
  by (auto simp: handles_ok_def clearInterval_def list_all_iff split: option.splits)

lemma handles_ok_startStreamingLive: "handles_ok w \<Longrightarrow> handles_ok (startStreamingLive v cb w)"
  using handles_ok_setInterval [of w "StreamingLive v cb" 800]
  by (simp add: startStreamingLive_def split_beta)

lemma handles_ok_startPollingFallback: "handles_ok w \<Longrightarrow> handles_ok (startPollingFallback v cb i w)"
  using handles_ok_setInterval [of w "PollingFallback v cb i" 1500]
  by (simp add: startPollingFallback_def split_beta)

lemma handles_ok_fields:
  "handles_ok w \<Longrightarrow> intervals w' = intervals w \<Longrightarrow> nextHandle w' = nextHandle w \<Longrightarrow>
   intervalId w' = intervalId w \<or> intervalId w' = None \<Longrightarrow> handles_ok w'"
  by (auto simp: handles_ok_def split: option.splits)

lemma handles_ok_switchToFallback: "handles_ok w \<Longrightarrow> handles_ok (switchToFallback v cb i w)"
proof (cases "isFallbackActive w")
  case True
  assume "handles_ok w"
  with True show ?thesis by (simp add: switchToFallback_active)
next
  case False
  assume ok: "handles_ok w"
  have "0 < nextHandle w" "\<forall>t \<in> set (intervals w). 0 < fst t \<and> fst t < nextHandle w"
    using ok by (simp_all add: handles_ok_def list_all_iff)
  then show ?thesis
    using switchToFallback_fields [OF False ok, of v cb i]
    by (auto simp: handles_ok_def list_all_iff split: option.splits)
qed

lemma handles_ok_disconnect: "handles_ok w \<Longrightarrow> handles_ok (disconnect w)"
  by (auto simp: handles_ok_def disconnect_def clearInterval_def Let_def list_all_iff
      split: option.splits)

lemma handles_ok_step: "handles_ok w \<Longrightarrow> handles_ok (step w ev)"
proof (cases ev)
  case (Connect apiKey)
  assume "handles_ok w"
  then show ?thesis
    by (auto simp: Connect connect_def handles_ok_def split: option.splits)
next
  case (Resolved s)
  assume "handles_ok w"
  then show ?thesis
    by (auto simp: Resolved handles_ok_def split: option.splits)
next
  case (Rejected v cb i)
  assume "handles_ok w"
  then show ?thesis
    by (simp add: Rejected handles_ok_switchToFallback)
next
  case (OnOpen v cb)
  assume "handles_ok w"
  then show ?thesis
    by (simp add: OnOpen handles_ok_startStreamingLive)
next
  case (OnError v cb i)
  assume "handles_ok w"
  then show ?thesis
    by (simp add: OnError handles_ok_switchToFallback)
next
  case Disconnect
  assume "handles_ok w"
  then show ?thesis
    by (simp add: Disconnect handles_ok_disconnect)
qed

lemma handles_ok_foldl: "handles_ok w \<Longrightarrow> handles_ok (foldl step w evs)"
  by (induction evs arbitrary: w) (simp_all add: handles_ok_step)

lemma handles_ok_run: "handles_ok (run (newService has2d) evs)"
  by (simp add: run_def handles_ok_foldl handles_ok_newService)

lemma run_open_session:
  "run (newService True) open_session =
     \<lparr>session = Some 0, intervalId = Some 1, ctx = True, ai = Some ''key'',
      isFallbackActive = False, intervals = [(1, 800, StreamingLive 0 0)],
      nextHandle = 2, closed = []\<rparr>"
  by (simp add: run_def open_session_def newService_def connect_def startStreamingLive_def
      setInterval_def)

lemma run_failed_connect:
  "run (newService True) failed_connect =
     \<lparr>session = None, intervalId = Some 1, ctx = True, ai = Some ''key'',
      isFallbackActive = True, intervals = [(1, 1500, PollingFallback 0 0 ())],
      nextHandle = 2, closed = []\<rparr>"
  by (simp add: run_def failed_connect_def newService_def connect_def switchToFallback_def
      startPollingFallback_def setInterval_def truthy_def Let_def)

lemma onResponse_sample_object:
  "onResponse sample_parse (Some sample_object) =
     Inr (Some \<lparr>state = CHAOS, handX = 0.5, handY = 0\<rparr>)"
proof -
  have "sample_object \<noteq> []"
    by (simp add: sample_object_def)
  then show ?thesis
    by (simp add: onResponse_def tryCatch_def parseAndReport_def sample_parse_object
        gestureOf_JObj stateOf_def numberOr0_def)
qed

text \<open>
  Claim C3, as the code has it. A failed connection and an error of the session both run
  \<^verbatim>\<open>switchToFallback\<close>. When the fallback is not yet active it closes and drops the
  session, cancels the timer the service holds and registers one interval timer of 1500
  ms for the polling handler, with the callback it was given. Each run of that handler
  sends one \<^verbatim>\<open>generateContent\<close> request holding the one captured frame, provided the
  client and the canvas context exist and the video has a width; otherwise the run sends
  nothing. The handler passes what it parsed from the response to the same callback.
\<close>

theorem C3_fallback_to_polling:
  fixes w u :: "('s, 'v, 'cb, 'i) service"
    and JSON_parse :: "string \<Rightarrow> js_error + ('n::zero) json"
    and frame :: 'f
  shows
  "step w (Rejected v cb i) = switchToFallback v cb i w
   \<and> step w (OnError v cb i) = switchToFallback v cb i w
   \<and> (\<not> isFallbackActive w \<and> handles_ok w \<longrightarrow>
        isFallbackActive (switchToFallback v cb i w)
        \<and> session (switchToFallback v cb i w) = None
        \<and> (\<forall>s. session w = Some s \<longrightarrow> closed (switchToFallback v cb i w) = closed w @ [s])
        \<and> (\<forall>h. intervalId w = Some h \<longrightarrow> h \<notin> set (activeTimers (switchToFallback v cb i w)))
        \<and> intervalId (switchToFallback v cb i w) = Some (nextHandle w)
        \<and> intervals (switchToFallback v cb i w) =
            filter (\<lambda>t. Some (fst t) \<noteq> intervalId w) (intervals w)
            @ [(nextHandle w, 1500, PollingFallback v cb i)]
        \<and> ai (switchToFallback v cb i w) = ai w
        \<and> ctx (switchToFallback v cb i w) = ctx w)
   \<and> (ai u \<noteq> None \<and> ctx u \<and> videoWidth \<noteq> 0 \<longrightarrow>
        tick (PollingFallback v cb i) u videoWidth frame =
          Some (GenerateContent ''gemini-2.5-flash'' [frame] ''Analyze hand state. Return JSON only.'' i))
   \<and> (ai u = None \<or> \<not> ctx u \<or> videoWidth = 0 \<longrightarrow>
        tick (PollingFallback v cb i) u videoWidth frame = None)
   \<and> (onResponse JSON_parse rt = Inr (Some data) \<longrightarrow>
        deliver (PollingFallback v cb i) JSON_parse rt = Some (cb, data))
   \<and> (onResponse JSON_parse rt = Inr None \<longrightarrow>
        deliver (PollingFallback v cb i) JSON_parse rt = None)"
proof (intro conjI impI allI)
  show "step w (Rejected v cb i) = switchToFallback v cb i w"
    "step w (OnError v cb i) = switchToFallback v cb i w"
    by simp_all
next
  assume "ai u \<noteq> None \<and> ctx u \<and> videoWidth \<noteq> 0"
  then show "tick (PollingFallback v cb i) u videoWidth frame =
          Some (GenerateContent ''gemini-2.5-flash'' [frame] ''Analyze hand state. Return JSON only.'' i)"
    by (simp add: pollingTick_def)
next
  assume "ai u = None \<or> \<not> ctx u \<or> videoWidth = 0"
  then show "tick (PollingFallback v cb i) u videoWidth frame = None"
    by (auto simp: pollingTick_def)
next
  assume "onResponse JSON_parse rt = Inr (Some data)"
  then show "deliver (PollingFallback v cb i) JSON_parse rt = Some (cb, data)"
    by simp
next
  assume "onResponse JSON_parse rt = Inr None"
  then show "deliver (PollingFallback v cb i) JSON_parse rt = None"
    by simp
next
  assume a: "\<not> isFallbackActive w \<and> handles_ok w"
  then have off: "\<not> isFallbackActive w" and ok: "handles_ok w"
    by simp_all
  note fields = switchToFallback_fields [OF off ok, of v cb i]
  show "isFallbackActive (switchToFallback v cb i w)"
    by (rule fields)
  show "session (switchToFallback v cb i w) = None"
    by (rule fields)
  show "intervalId (switchToFallback v cb i w) = Some (nextHandle w)"
    by (rule fields)
  show "ai (switchToFallback v cb i w) = ai w"
    by (rule fields)
  show "ctx (switchToFallback v cb i w) = ctx w"
    by (rule fields)
  show "intervals (switchToFallback v cb i w) =
            filter (\<lambda>t. Some (fst t) \<noteq> intervalId w) (intervals w)
            @ [(nextHandle w, 1500, PollingFallback v cb i)]"
    by (rule fields)
  {
    fix s
    assume "session w = Some s"
    then show "closed (switchToFallback v cb i w) = closed w @ [s]"
      by (simp add: fields)
  }
  {
    fix h
    assume h: "intervalId w = Some h"
    then have "h < nextHandle w"
      using ok by (simp add: handles_ok_def)
    then show "h \<notin> set (activeTimers (switchToFallback v cb i w))"
      using h by (auto simp: activeTimers_def fields)
  }
qed

text \<open>
  Claim C3 as written fails: after a failed connection the polling timer is registered,
  and a run of its handler while the video has no width sends no frame.
\<close>

theorem C3_counterexample:
  "intervals (run (newService True) failed_connect) = [(1, 1500, PollingFallback 0 0 ())]
   \<and> tick (PollingFallback 0 0 ()) (run (newService True) failed_connect) 0 ''frame'' = None"
  by (simp add: run_failed_connect pollingTick_def)

theorem C3_fallback_to_polling_witness:
  "session (switchToFallback 0 0 () (run (newService True) open_session)) = None
   \<and> closed (switchToFallback 0 0 () (run (newService True) open_session)) = [0]
   \<and> 1 \<notin> set (activeTimers (switchToFallback 0 0 () (run (newService True) open_session)))
   \<and> intervals (switchToFallback 0 0 () (run (newService True) open_session)) =
        [(2, 1500, PollingFallback 0 0 ())]
   \<and> tick (PollingFallback 0 0 ()) (switchToFallback 0 0 () (run (newService True) open_session))
        640 ''frame'' =
        Some (GenerateContent ''gemini-2.5-flash'' [''frame''] ''Analyze hand state. Return JSON only.'' ())
   \<and> tick (PollingFallback 0 0 ()) (switchToFallback 0 0 () (run (newService True) open_session))
        0 ''frame'' = None
   \<and> deliver (PollingFallback 0 0 ()) sample_parse (Some sample_object) =
        Some (0, \<lparr>state = CHAOS, handX = 0.5, handY = 0\<rparr>)
   \<and> deliver (PollingFallback 0 0 ()) sample_parse (Some ''null'') = None"
proof -
  let ?w = "run (newService True) open_session"
  let ?w' = "switchToFallback 0 0 () ?w"
  have off: "\<not> isFallbackActive ?w" and ok: "handles_ok ?w"
    by (simp_all add: run_open_session handles_ok_def)
  have before: "session ?w = Some 0" "intervalId ?w = Some 1" "closed ?w = []"
    "intervals ?w = [(1, 800, StreamingLive 0 0)]" "nextHandle ?w = 2" "ai ?w = Some ''key''" "ctx ?w"
    by (simp_all add: run_open_session)
  note switched = C3_fallback_to_polling [where w = ?w and v = 0 and cb = 0 and i = "()", THEN conjunct2, THEN conjunct2, THEN conjunct1,
      rule_format, OF conjI, OF off ok]
  have session: "session ?w' = None"
    using switched by blast
  have closed: "closed ?w' = [0]"
    using switched before by simp
  have cancelled: "1 \<notin> set (activeTimers ?w')"
    using switched before by blast
  have polling: "intervals ?w' = [(2, 1500, PollingFallback 0 0 ())]"
    using switched before by simp
  have ready: "ai ?w' \<noteq> None \<and> ctx ?w' \<and> (640::nat) \<noteq> 0"
    using switched before by simp
  have sends: "tick (PollingFallback 0 0 ()) ?w' 640 ''frame'' =
        Some (GenerateContent ''gemini-2.5-flash'' [''frame''] ''Analyze hand state. Return JSON only.'' ())"
    using C3_fallback_to_polling [where u = ?w' and v = 0 and cb = 0 and i = "()"
        and videoWidth = 640 and frame = "''frame''", THEN conjunct2, THEN conjunct2, THEN conjunct2, THEN conjunct1] ready
    by blast
  have skips: "tick (PollingFallback 0 0 ()) ?w' 0 ''frame'' = None"
    using C3_fallback_to_polling [where u = ?w' and v = 0 and cb = 0 and i = "()"
        and videoWidth = 0 and frame = "''frame''", THEN conjunct2, THEN conjunct2, THEN conjunct2, THEN conjunct2, THEN conjunct1]
    by blast
  have delivers: "deliver (PollingFallback 0 0 ()) sample_parse (Some sample_object) =
        Some (0, \<lparr>state = CHAOS, handX = 0.5, handY = 0\<rparr>)"
    using C3_fallback_to_polling [where JSON_parse = sample_parse and rt = "Some sample_object"
        and v = 0 and cb = 0 and i = "()", THEN conjunct2, THEN conjunct2, THEN conjunct2, THEN conjunct2, THEN conjunct2, THEN conjunct1] onResponse_sample_object
    by blast
  have "onResponse sample_parse (Some ''null'') = Inr None"
    by (simp add: onResponse_def tryCatch_def parseAndReport_def sample_parse_def
        sample_object_def gestureOf_JNull)
  then have silent: "deliver (PollingFallback 0 0 ()) sample_parse (Some ''null'') = None"
    using C3_fallback_to_polling [where JSON_parse = sample_parse and rt = "Some ''null''"
        and v = 0 and cb = 0 and i = "()", THEN conjunct2, THEN conjunct2, THEN conjunct2, THEN conjunct2, THEN conjunct2, THEN conjunct2]
    by blast
  from session closed cancelled polling sends skips delivers silent show ?thesis
    by (intro conjI)
qed

section \<open>One timer at a time\<close>

lemma timers_recorded_newService: "timers_recorded (newService has2d)"
  by (simp add: timers_recorded_def activeTimers_def newService_def)

lemma timers_recorded_switchToFallback:
  assumes "timers_recorded w" and "handles_ok w"
  shows "timers_recorded (switchToFallback v cb i w)"
proof (cases "isFallbackActive w")
  case True
  with assms show ?thesis
    by (simp add: switchToFallback_active)
next
  case False
  have "filter (\<lambda>t. Some (fst t) \<noteq> intervalId w) (intervals w) = []"
    using assms(1) by (auto simp: timers_recorded_def activeTimers_def list_all_iff filter_empty_conv)
  then show ?thesis
    using switchToFallback_fields [OF False assms(2), of v cb i]
    by (simp add: timers_recorded_def activeTimers_def)
qed

lemma timers_recorded_disconnect:
  assumes "timers_recorded w" and "handles_ok w"
  shows "activeTimers (disconnect w) = []"
    and "session (disconnect w) = None" and "ai (disconnect w) = None"
proof -
  have "filter (\<lambda>t. Some (fst t) \<noteq> intervalId w) (intervals w) = []"
    using assms(1) by (auto simp: timers_recorded_def activeTimers_def list_all_iff filter_empty_conv)
  moreover have "intervals w \<noteq> [] \<Longrightarrow> intervalId w \<noteq> None"
    using assms(1) by (cases "intervals w") (auto simp: timers_recorded_def activeTimers_def)
  ultimately show "activeTimers (disconnect w) = []"
    using handles_ok_truthy [OF assms(2)]
    by (cases "intervalId w")
      (auto simp: disconnect_def activeTimers_def clearInterval_def Let_def split: option.splits)
  show "session (disconnect w) = None" "ai (disconnect w) = None"
    by (simp_all add: disconnect_def Let_def split: option.splits)
qed

lemma timers_recorded_startStreamingLive:
  "activeTimers w = [] \<Longrightarrow> timers_recorded (startStreamingLive v cb w)"
  by (simp add: timers_recorded_def activeTimers_def startStreamingLive_def setInterval_def)

text \<open>
  Claim C7, on the run in which the service connects and the session opens twice with no
  \<^verbatim>\<open>disconnect\<close> between: \<^verbatim>\<open>startStreamingLive\<close> registers the second streaming
  timer without cancelling the first, so two interval timers are active, and the service
  holds the handle of the second only; \<^verbatim>\<open>disconnect\<close> then cancels the second and the
  first stays active.
\<close>

theorem C7_two_timers:
  "activeTimers (run (newService True) connect_twice) = [1, 2]
   \<and> intervalId (run (newService True) connect_twice) = Some 2
   \<and> activeTimers (run (newService True) (connect_twice @ [Disconnect])) = [1]"
  by (simp add: run_def connect_twice_def newService_def connect_def startStreamingLive_def
      setInterval_def disconnect_def clearInterval_def truthy_def activeTimers_def Let_def)

section \<open>The ensembles between their two arrangements\<close>

lemma makeItem_result:
  "makeItem (t, c, s) st =
     (\<lparr>targetPos = fresh st, chaosPos = fresh st + 1, currentPos = fresh st + 2, speed = s\<rparr>,
      \<lparr>cells = (cells st)(fresh st := t, fresh st + 1 := c, fresh st + 2 := c),
       fresh = fresh st + 3\<rparr>)"
  by (simp add: makeItem_def new_Vector3_def clone_def)

lemma refs_Cons: "refs (d # ds) = targetPos d # chaosPos d # currentPos d # refs ds"
  by (simp add: refs_def)

lemma makeData_Cons:
  "makeData (draw # draws) st = (data, st') \<Longrightarrow>
   \<exists>d st1 ds. makeItem draw st = (d, st1) \<and> makeData draws st1 = (ds, st') \<and> data = d # ds"
  by (auto simp: Let_def split: prod.splits)

lemma makeData_refs:
  "makeData draws st = (data, st') \<Longrightarrow>
   distinct (refs data) \<and> set (refs data) \<subseteq> {fresh st..<fresh st'} \<and> fresh st \<le> fresh st'"
proof (induction draws arbitrary: st data)
  case Nil
  then show ?case by (simp add: refs_def)
next
  case (Cons draw draws)
  obtain t c s where draw: "draw = (t, c, s)"
    by (cases draw)
  from makeData_Cons [OF Cons.prems] obtain d st1 ds
    where d: "makeItem draw st = (d, st1)" and ds: "makeData draws st1 = (ds, st')"
      and data: "data = d # ds"
    by blast
  from d have item: "targetPos d = fresh st" "chaosPos d = fresh st + 1" "currentPos d = fresh st + 2"
    "fresh st1 = fresh st + 3"
    by (auto simp: draw makeItem_result)
  from Cons.IH [OF ds]
  have ih: "distinct (refs ds)" "set (refs ds) \<subseteq> {fresh st1..<fresh st'}" "fresh st1 \<le> fresh st'"
    by simp_all
  show ?case
    using ih item by (auto simp: data refs_Cons)
qed

lemma makeData_old:
  "makeData draws st = (data, st') \<Longrightarrow> r < fresh st \<Longrightarrow> cells st' r = cells st r"
proof (induction draws arbitrary: st data)
  case Nil
  then show ?case by simp
next
  case (Cons draw draws)
  obtain t c s where draw: "draw = (t, c, s)"
    by (cases draw)
  from makeData_Cons [OF Cons.prems(1)] obtain d st1 ds
    where d: "makeItem draw st = (d, st1)" and ds: "makeData draws st1 = (ds, st')"
    by blast
  from d have st1: "fresh st1 = fresh st + 3" "cells st1 r = cells st r"
    using Cons.prems(2) by (auto simp: draw makeItem_result)
  then have "cells st' r = cells st1 r"
    using Cons.IH [OF ds] Cons.prems(2) by simp
  with st1 show ?case by simp
qed

lemma makeData_length: "makeData draws st = (data, st') \<Longrightarrow> length data = length draws"
  using length_makeData [of draws st] by simp

lemma makeData_cells:
  "makeData draws st = (data, st') \<Longrightarrow> i < length draws \<Longrightarrow>
   cells st' (targetPos (data ! i)) = fst (draws ! i)
   \<and> cells st' (chaosPos (data ! i)) = fst (snd (draws ! i))
   \<and> cells st' (currentPos (data ! i)) = fst (snd (draws ! i))
   \<and> speed (data ! i) = snd (snd (draws ! i))"
proof (induction draws arbitrary: st data i)
  case Nil
  then show ?case by simp
next
  case (Cons draw draws)
  obtain t c s where draw: "draw = (t, c, s)"
    by (cases draw)
  from makeData_Cons [OF Cons.prems(1)] obtain d st1 ds
    where d: "makeItem draw st = (d, st1)" and ds: "makeData draws st1 = (ds, st')"
      and data: "data = d # ds"
    by blast
  show ?case
  proof (cases i)
    case 0
    from d have item: "targetPos d = fresh st" "chaosPos d = fresh st + 1" "currentPos d = fresh st + 2"
      "speed d = s" "fresh st1 = fresh st + 3"
      "cells st1 (fresh st) = t" "cells st1 (fresh st + 1) = c" "cells st1 (fresh st + 2) = c"
      by (auto simp: draw makeItem_result)
    have "cells st' (fresh st) = cells st1 (fresh st)" "cells st' (fresh st + 1) = cells st1 (fresh st + 1)"
      "cells st' (fresh st + 2) = cells st1 (fresh st + 2)"
      using makeData_old [OF ds] item(5) by simp_all
    with item show ?thesis
      by (simp add: 0 data draw)
  next
    case (Suc j)
    with Cons.prems(2) have "j < length draws"
      by simp
    from Cons.IH [OF ds this] show ?thesis
      by (simp add: Suc data)
  qed
qed

lemma refs_apart:
  "distinct (refs data) \<Longrightarrow> d \<in> set data \<Longrightarrow> d' \<in> set data \<Longrightarrow>
   targetPos d \<noteq> currentPos d' \<and> chaosPos d \<noteq> currentPos d'"
proof (induction data)
  case Nil
  then show ?case by simp
next
  case (Cons e es)
  have in_refs: "\<And>x. x \<in> set es \<Longrightarrow>
      targetPos x \<in> set (refs es) \<and> chaosPos x \<in> set (refs es) \<and> currentPos x \<in> set (refs es)"
    by (auto simp: refs_def)
  from Cons.prems(1) have e: "targetPos e \<noteq> currentPos e" "chaosPos e \<noteq> currentPos e"
    "targetPos e \<notin> set (refs es)" "chaosPos e \<notin> set (refs es)" "currentPos e \<notin> set (refs es)"
    "distinct (refs es)"
    by (auto simp: refs_Cons)
  show ?case
  proof (cases "d = e")
    case True
    show ?thesis
    proof (cases "d' = e")
      case True
      with \<open>d = e\<close> e show ?thesis by simp
    next
      case False
      with Cons.prems(3) have "d' \<in> set es" by simp
      from in_refs [OF this] e \<open>d = e\<close> show ?thesis by auto
    qed
  next
    case False
    with Cons.prems(2) have d: "d \<in> set es" by simp
    show ?thesis
    proof (cases "d' = e")
      case True
      from in_refs [OF d] e True show ?thesis by auto
    next
      case False
      with Cons.prems(3) have "d' \<in> set es" by simp
      from Cons.IH [OF e(6) d this] show ?thesis .
    qed
  qed
qed

lemma currentPos_apart:
  "distinct (refs (d # ds)) \<Longrightarrow> d' \<in> set ds \<Longrightarrow> currentPos d \<noteq> currentPos d'"
  by (auto simp: refs_Cons refs_def)

lemma foldl_untouched:
  assumes frame: "\<And>st k d r. r \<noteq> currentPos d \<Longrightarrow> cells (f st (k, d)) r = cells st r"
    and "\<forall>d \<in> set data. r \<noteq> currentPos d"
  shows "cells (foldl f st (enumerate k data)) r = cells st r"
  using assms(2)
proof (induction data arbitrary: st k)
  case Nil
  then show ?case by simp
next
  case (Cons d ds)
  have "cells (foldl f (f st (k, d)) (enumerate (Suc k) ds)) r = cells (f st (k, d)) r"
    using Cons by simp
  also have "\<dots> = cells st r"
    using Cons.prems by (simp add: frame)
  finally show ?case by simp
qed

lemma foldl_item:
  assumes frame: "\<And>st k d r. r \<noteq> currentPos d \<Longrightarrow> cells (f st (k, d)) r = cells st r"
    and upd: "\<And>st k d. cells (f st (k, d)) (currentPos d) =
        g k d (cells st (currentPos d)) (cells st (chaosPos d)) (cells st (targetPos d))"
    and "distinct (refs data)" and "i < length data"
  shows "cells (foldl f st (enumerate k data)) (currentPos (data ! i)) =
     g (k + i) (data ! i) (cells st (currentPos (data ! i))) (cells st (chaosPos (data ! i)))
       (cells st (targetPos (data ! i)))"
  using assms(3,4)
proof (induction data arbitrary: st k i)
  case Nil
  then show ?case by simp
next
  case (Cons d ds)
  let ?st1 = "f st (k, d)"
  have rest: "foldl f st (enumerate k (d # ds)) = foldl f ?st1 (enumerate (Suc k) ds)"
    by simp
  show ?case
  proof (cases i)
    case 0
    have apart: "\<forall>d' \<in> set ds. currentPos d \<noteq> currentPos d'"
      using currentPos_apart [OF Cons.prems(1)] by blast
    have "cells (foldl f ?st1 (enumerate (Suc k) ds)) (currentPos d) = cells ?st1 (currentPos d)"
    proof (rule foldl_untouched [where f = f])
      show "\<And>st k d r. r \<noteq> currentPos d \<Longrightarrow> cells (f st (k, d)) r = cells st r"
        by (rule frame)
      show "\<forall>d' \<in> set ds. currentPos d \<noteq> currentPos d'"
        by (rule apart)
    qed
    then show ?thesis
      by (simp add: 0 upd)
  next
    case (Suc j)
    with Cons.prems(2) have j: "j < length ds"
      by simp
    then have mem: "ds ! j \<in> set ds"
      by simp
    have "distinct (refs ds)"
      using Cons.prems(1) by (simp add: refs_Cons)
    from Cons.IH [OF this j, of ?st1 "Suc k"]
    have ih: "cells (foldl f ?st1 (enumerate (Suc k) ds)) (currentPos (ds ! j)) =
        g (Suc k + j) (ds ! j) (cells ?st1 (currentPos (ds ! j))) (cells ?st1 (chaosPos (ds ! j)))
          (cells ?st1 (targetPos (ds ! j)))" .
    have "currentPos (ds ! j) \<noteq> currentPos d"
      using currentPos_apart [OF Cons.prems(1) mem] by simp
    moreover have "targetPos (ds ! j) \<noteq> currentPos d \<and> chaosPos (ds ! j) \<noteq> currentPos d"
      using refs_apart [OF Cons.prems(1), of "ds ! j" d] mem by simp
    ultimately have "cells ?st1 (currentPos (ds ! j)) = cells st (currentPos (ds ! j))"
      "cells ?st1 (chaosPos (ds ! j)) = cells st (chaosPos (ds ! j))"
      "cells ?st1 (targetPos (ds ! j)) = cells st (targetPos (ds ! j))"
      by (simp_all add: frame)
    with ih show ?thesis
      by (simp add: Suc)
  qed
qed

lemma Ornaments_item_frame:
  "r \<noteq> currentPos d \<Longrightarrow> cells (Ornaments_item progress now st (k, d)) r = cells st r"
  by (simp add: Ornaments_item_def lerpCurrent_def Let_def)

lemma Fillers_item_frame:
  "r \<noteq> currentPos d \<Longrightarrow> cells (Fillers_item progress st (k, d)) r = cells st r"
  by (simp add: Fillers_item_def lerpCurrent_def)

lemma Fillers_item_current:
  "cells (Fillers_item progress st (k, d)) (currentPos d) =
     moved progress d (cells st (currentPos d)) (cells st (chaosPos d)) (cells st (targetPos d))"
  by (simp add: Fillers_item_def lerpCurrent_def dest_def moved_def)

lemma Ornaments_item_current:
  "cells (Ornaments_item progress now st (k, d)) (currentPos d) =
     (if progress > 0.5
      then addY (bob now k) (moved progress d (cells st (currentPos d)) (cells st (chaosPos d)) (cells st (targetPos d)))
      else moved progress d (cells st (currentPos d)) (cells st (chaosPos d)) (cells st (targetPos d)))"
  by (simp add: Ornaments_item_def lerpCurrent_def dest_def moved_def Let_def)

lemma Ornaments_useFrame_current:
  assumes "distinct (refs data)" and "i < length data"
  shows "cells (Ornaments_useFrame True progress now data st) (currentPos (data ! i)) =
     (if progress > 0.5
      then addY (bob now i) (Vector3_lerp (cells st (currentPos (data ! i)))
             (cells st (chaosPos (data ! i))) (speed (data ! i)))
      else Vector3_lerp (cells st (currentPos (data ! i)))
             (cells st (targetPos (data ! i))) (speed (data ! i)))"
proof -
  let ?g = "\<lambda>k d cur chaos target.
      if progress > 0.5 then addY (bob now k) (moved progress d cur chaos target)
      else moved progress d cur chaos target"
  have "cells (foldl (Ornaments_item progress now) st (enumerate 0 data)) (currentPos (data ! i)) =
      ?g (0 + i) (data ! i) (cells st (currentPos (data ! i))) (cells st (chaosPos (data ! i)))
        (cells st (targetPos (data ! i)))"
  proof (rule foldl_item [where f = "Ornaments_item progress now" and g = ?g])
    show "\<And>st k d r. r \<noteq> currentPos d \<Longrightarrow> cells (Ornaments_item progress now st (k, d)) r = cells st r"
      by (rule Ornaments_item_frame)
    show "\<And>st k d. cells (Ornaments_item progress now st (k, d)) (currentPos d) =
        ?g k d (cells st (currentPos d)) (cells st (chaosPos d)) (cells st (targetPos d))"
      by (rule Ornaments_item_current)
    show "distinct (refs data)" "i < length data"
      by (rule assms)+
  qed
  then show ?thesis
    by (simp add: Ornaments_useFrame_def moved_def)
qed

lemma Fillers_useFrame_current:
  assumes "distinct (refs data)" and "i < length data"
  shows "cells (Fillers_useFrame True progress data st) (currentPos (data ! i)) =
     Vector3_lerp (cells st (currentPos (data ! i)))
       (if progress > 0.5 then cells st (chaosPos (data ! i)) else cells st (targetPos (data ! i)))
       (speed (data ! i))"
proof -
  let ?g = "\<lambda>k. moved progress"
  have "cells (foldl (Fillers_item progress) st (enumerate 0 data)) (currentPos (data ! i)) =
      ?g (0 + i) (data ! i) (cells st (currentPos (data ! i))) (cells st (chaosPos (data ! i)))
        (cells st (targetPos (data ! i)))"
  proof (rule foldl_item [where f = "Fillers_item progress" and g = ?g])
    show "\<And>st k d r. r \<noteq> currentPos d \<Longrightarrow> cells (Fillers_item progress st (k, d)) r = cells st r"
      by (rule Fillers_item_frame)
    show "\<And>st k d. cells (Fillers_item progress st (k, d)) (currentPos d) =
        ?g k d (cells st (currentPos d)) (cells st (chaosPos d)) (cells st (targetPos d))"
      by (rule Fillers_item_current)
    show "distinct (refs data)" "i < length data"
      by (rule assms)+
  qed
  then show ?thesis
    by (simp add: Fillers_useFrame_def moved_def)
qed

lemma Ornaments_useFrame_fixed:
  assumes "distinct (refs data)" and "d \<in> set data"
  shows "cells (Ornaments_useFrame mounted progress now data st) (targetPos d) = cells st (targetPos d)"
    and "cells (Ornaments_useFrame mounted progress now data st) (chaosPos d) = cells st (chaosPos d)"
proof -
  have apart: "\<forall>d' \<in> set data. targetPos d \<noteq> currentPos d'" "\<forall>d' \<in> set data. chaosPos d \<noteq> currentPos d'"
    using refs_apart [OF assms] by blast+
  have "cells (foldl (Ornaments_item progress now) st (enumerate 0 data)) (targetPos d) = cells st (targetPos d)"
  proof (rule foldl_untouched [where f = "Ornaments_item progress now"])
    show "\<And>st k d r. r \<noteq> currentPos d \<Longrightarrow> cells (Ornaments_item progress now st (k, d)) r = cells st r"
      by (rule Ornaments_item_frame)
    show "\<forall>d' \<in> set data. targetPos d \<noteq> currentPos d'"
      by (rule apart)
  qed
  then show "cells (Ornaments_useFrame mounted progress now data st) (targetPos d) = cells st (targetPos d)"
    by (simp add: Ornaments_useFrame_def)
  have "cells (foldl (Ornaments_item progress now) st (enumerate 0 data)) (chaosPos d) = cells st (chaosPos d)"
  proof (rule foldl_untouched [where f = "Ornaments_item progress now"])
    show "\<And>st k d r. r \<noteq> currentPos d \<Longrightarrow> cells (Ornaments_item progress now st (k, d)) r = cells st r"
      by (rule Ornaments_item_frame)
    show "\<forall>d' \<in> set data. chaosPos d \<noteq> currentPos d'"
      by (rule apart)
  qed
  then show "cells (Ornaments_useFrame mounted progress now data st) (chaosPos d) = cells st (chaosPos d)"
    by (simp add: Ornaments_useFrame_def)
qed

lemma Fillers_useFrame_fixed:
  assumes "distinct (refs data)" and "d \<in> set data"
  shows "cells (Fillers_useFrame mounted progress data st) (targetPos d) = cells st (targetPos d)"
    and "cells (Fillers_useFrame mounted progress data st) (chaosPos d) = cells st (chaosPos d)"
proof -
  have apart: "\<forall>d' \<in> set data. targetPos d \<noteq> currentPos d'" "\<forall>d' \<in> set data. chaosPos d \<noteq> currentPos d'"
    using refs_apart [OF assms] by blast+
  have "cells (foldl (Fillers_item progress) st (enumerate 0 data)) (targetPos d) = cells st (targetPos d)"
  proof (rule foldl_untouched [where f = "Fillers_item progress"])
    show "\<And>st k d r. r \<noteq> currentPos d \<Longrightarrow> cells (Fillers_item progress st (k, d)) r = cells st r"
      by (rule Fillers_item_frame)
    show "\<forall>d' \<in> set data. targetPos d \<noteq> currentPos d'"
      by (rule apart)
  qed
  then show "cells (Fillers_useFrame mounted progress data st) (targetPos d) = cells st (targetPos d)"
    by (simp add: Fillers_useFrame_def)
  have "cells (foldl (Fillers_item progress) st (enumerate 0 data)) (chaosPos d) = cells st (chaosPos d)"
  proof (rule foldl_untouched [where f = "Fillers_item progress"])
    show "\<And>st k d r. r \<noteq> currentPos d \<Longrightarrow> cells (Fillers_item progress st (k, d)) r = cells st r"
      by (rule Fillers_item_frame)
    show "\<forall>d' \<in> set data. chaosPos d \<noteq> currentPos d'"
      by (rule apart)
  qed
  then show "cells (Fillers_useFrame mounted progress data st) (chaosPos d) = cells st (chaosPos d)"
    by (simp add: Fillers_useFrame_def)
qed

lemma Ornaments_frames_fixed:
  assumes "distinct (refs data)" and "d \<in> set data"
  shows "cells (Ornaments_frames data st fs) (targetPos d) = cells st (targetPos d)
    \<and> cells (Ornaments_frames data st fs) (chaosPos d) = cells st (chaosPos d)"
proof (induction fs arbitrary: st)
  case Nil
  then show ?case by (simp add: Ornaments_frames_def)
next
  case (Cons f fs)
  have "Ornaments_frames data st (f # fs) =
      Ornaments_frames data (Ornaments_useFrame True (fst f) (snd f) data st) fs"
    by (simp add: Ornaments_frames_def)
  then show ?case
    using Cons.IH [of "Ornaments_useFrame True (fst f) (snd f) data st"]
      Ornaments_useFrame_fixed [OF assms, of True "fst f" "snd f" st]
    by simp
qed

lemma Fillers_frames_fixed:
  assumes "distinct (refs data)" and "d \<in> set data"
  shows "cells (Fillers_frames data st ps) (targetPos d) = cells st (targetPos d)
    \<and> cells (Fillers_frames data st ps) (chaosPos d) = cells st (chaosPos d)"
proof (induction ps arbitrary: st)
  case Nil
  then show ?case by (simp add: Fillers_frames_def)
next
  case (Cons q ps)
  have "Fillers_frames data st (q # ps) = Fillers_frames data (Fillers_useFrame True q data st) ps"
    by (simp add: Fillers_frames_def)
  then show ?case
    using Cons.IH [of "Fillers_useFrame True q data st"]
      Fillers_useFrame_fixed [OF assms, of True q st]
    by simp
qed

lemma vertexShader_frame:
  "vertexShader (Foliage_useFrame True elapsedTime progress u) p =
     Vector3 (mix (vx (aTargetPos p)) (vx (aChaosPos p)) (lerp (uProgress u) progress 0.1)
                + wind (Foliage_useFrame True elapsedTime progress u) p)
             (mix (vy (aTargetPos p)) (vy (aChaosPos p)) (lerp (uProgress u) progress 0.1))
             (mix (vz (aTargetPos p)) (vz (aChaosPos p)) (lerp (uProgress u) progress 0.1))"
  by (simp add: vertexShader_def Foliage_useFrame_def mix3_def Let_def)

text \<open>
  Claim C2, as the code has it. The formed and chaos positions of an ornament or a filler
  are set when the data is made and no run of frames changes them; its current position
  starts at its chaos position, and a frame moves it by \<^verbatim>\<open>lerp\<close> towards the chaos
  position when the progress is above 0.5 and towards the formed position otherwise (an
  ornament is then also shifted along y by a small sine of the clock while the progress
  is above 0.5). A foliage point is drawn at \<open>mix(formed, chaos, uProgress)\<close> with the
  wind added to x only, where \<open>uProgress\<close> is not the progress itself: each frame moves
  it a tenth of the way from its old value to the progress. It is the progress when the
  old value already was.
\<close>

theorem C2_interpolation:
  "vertexShader (Foliage_useFrame True elapsedTime progress u) p =
     Vector3 (mix (vx (aTargetPos p)) (vx (aChaosPos p)) (lerp (uProgress u) progress 0.1)
                + wind (Foliage_useFrame True elapsedTime progress u) p)
             (mix (vy (aTargetPos p)) (vy (aChaosPos p)) (lerp (uProgress u) progress 0.1))
             (mix (vz (aTargetPos p)) (vz (aChaosPos p)) (lerp (uProgress u) progress 0.1))
   \<and> lerp (uProgress u) progress 0.1 = uProgress u + (progress - uProgress u) * 0.1
   \<and> (uProgress u = progress \<longrightarrow> lerp (uProgress u) progress 0.1 = progress)
   \<and> (makeData draws st0 = (data, st) \<and> i < length data \<longrightarrow>
        cells (Ornaments_frames data st fs) (targetPos (data ! i)) = fst (draws ! i)
        \<and> cells (Ornaments_frames data st fs) (chaosPos (data ! i)) = fst (snd (draws ! i))
        \<and> cells (Fillers_frames data st ps) (targetPos (data ! i)) = fst (draws ! i)
        \<and> cells (Fillers_frames data st ps) (chaosPos (data ! i)) = fst (snd (draws ! i))
        \<and> cells st (currentPos (data ! i)) = fst (snd (draws ! i))
        \<and> speed (data ! i) = snd (snd (draws ! i))
        \<and> (progress > 0.5 \<longrightarrow>
             cells (Fillers_useFrame True progress data s1) (currentPos (data ! i)) =
               Vector3_lerp (cells s1 (currentPos (data ! i))) (cells s1 (chaosPos (data ! i)))
                 (speed (data ! i))
             \<and> cells (Ornaments_useFrame True progress now data s1) (currentPos (data ! i)) =
               addY (bob now i)
                 (Vector3_lerp (cells s1 (currentPos (data ! i))) (cells s1 (chaosPos (data ! i)))
                    (speed (data ! i))))
        \<and> (progress \<le> 0.5 \<longrightarrow>
             cells (Fillers_useFrame True progress data s1) (currentPos (data ! i)) =
               Vector3_lerp (cells s1 (currentPos (data ! i))) (cells s1 (targetPos (data ! i)))
                 (speed (data ! i))
             \<and> cells (Ornaments_useFrame True progress now data s1) (currentPos (data ! i)) =
               Vector3_lerp (cells s1 (currentPos (data ! i))) (cells s1 (targetPos (data ! i)))
                 (speed (data ! i))))"
proof (intro conjI impI)
  show "vertexShader (Foliage_useFrame True elapsedTime progress u) p =
     Vector3 (mix (vx (aTargetPos p)) (vx (aChaosPos p)) (lerp (uProgress u) progress 0.1)
                + wind (Foliage_useFrame True elapsedTime progress u) p)
             (mix (vy (aTargetPos p)) (vy (aChaosPos p)) (lerp (uProgress u) progress 0.1))
             (mix (vz (aTargetPos p)) (vz (aChaosPos p)) (lerp (uProgress u) progress 0.1))"
    by (rule vertexShader_frame)
  show "lerp (uProgress u) progress 0.1 = uProgress u + (progress - uProgress u) * 0.1"
    by (simp add: lerp_def field_simps)
next
  assume "uProgress u = progress"
  then show "lerp (uProgress u) progress 0.1 = progress"
    by (simp add: lerp_def field_simps)
next
  assume a: "makeData draws st0 = (data, st) \<and> i < length data"
  then have made: "makeData draws st0 = (data, st)" and i: "i < length data"
    by simp_all
  have i': "i < length draws"
    using i makeData_length [OF made] by simp
  have apart: "distinct (refs data)"
    using makeData_refs [OF made] by simp
  have mem: "data ! i \<in> set data"
    using i by simp
  note start = makeData_cells [OF made i']
  show "cells (Ornaments_frames data st fs) (targetPos (data ! i)) = fst (draws ! i)"
    "cells (Ornaments_frames data st fs) (chaosPos (data ! i)) = fst (snd (draws ! i))"
    using Ornaments_frames_fixed [OF apart mem, of st fs] start by simp_all
  show "cells (Fillers_frames data st ps) (targetPos (data ! i)) = fst (draws ! i)"
    "cells (Fillers_frames data st ps) (chaosPos (data ! i)) = fst (snd (draws ! i))"
    using Fillers_frames_fixed [OF apart mem, of st ps] start by simp_all
  show "cells st (currentPos (data ! i)) = fst (snd (draws ! i))"
    "speed (data ! i) = snd (snd (draws ! i))"
    using start by simp_all
  {
    assume "progress > 0.5"
    then show "cells (Fillers_useFrame True progress data s1) (currentPos (data ! i)) =
               Vector3_lerp (cells s1 (currentPos (data ! i))) (cells s1 (chaosPos (data ! i)))
                 (speed (data ! i))"
      "cells (Ornaments_useFrame True progress now data s1) (currentPos (data ! i)) =
               addY (bob now i)
                 (Vector3_lerp (cells s1 (currentPos (data ! i))) (cells s1 (chaosPos (data ! i)))
                    (speed (data ! i)))"
      by (simp_all add: Fillers_useFrame_current [OF apart i] Ornaments_useFrame_current [OF apart i])
  }
  {
    assume "progress \<le> 0.5"
    then show "cells (Fillers_useFrame True progress data s1) (currentPos (data ! i)) =
               Vector3_lerp (cells s1 (currentPos (data ! i))) (cells s1 (targetPos (data ! i)))
                 (speed (data ! i))"
      "cells (Ornaments_useFrame True progress now data s1) (currentPos (data ! i)) =
               Vector3_lerp (cells s1 (currentPos (data ! i))) (cells s1 (targetPos (data ! i)))
                 (speed (data ! i))"
      by (simp_all add: Fillers_useFrame_current [OF apart i] Ornaments_useFrame_current [OF apart i])
  }
qed

text \<open>
  Claim C2 as written fails for the foliage: in a frame with progress 1 on the initial
  uniforms, at time 0, a point with formed position (0, 0, 0), chaos position
  (10, 10, 10) and no wind is drawn at (1, 1, 1), not at \<open>mix(formed, chaos, 1)\<close>, which is
  (10, 10, 10).
\<close>

theorem C2_counterexample:
  "wind (Foliage_useFrame True 0 1 FoliageShaderMaterial) sample_point = 0
   \<and> vertexShader (Foliage_useFrame True 0 1 FoliageShaderMaterial) sample_point = Vector3 1 1 1
   \<and> mix3 (aTargetPos sample_point) (aChaosPos sample_point) 1 = Vector3 10 10 10
   \<and> vertexShader (Foliage_useFrame True 0 1 FoliageShaderMaterial) sample_point \<noteq>
       Vector3 (vx (mix3 (aTargetPos sample_point) (aChaosPos sample_point) 1)
                  + wind (Foliage_useFrame True 0 1 FoliageShaderMaterial) sample_point)
               (vy (mix3 (aTargetPos sample_point) (aChaosPos sample_point) 1))
               (vz (mix3 (aTargetPos sample_point) (aChaosPos sample_point) 1))"
  by (simp add: vertexShader_def Foliage_useFrame_def FoliageShaderMaterial_def wind_def
      sample_point_def origin_def far_def mix3_def mix_def lerp_def Let_def)

theorem C2_interpolation_witness:
  "lerp (uProgress FoliageShaderMaterial) 0 0.1 = 0
   \<and> cells (Ornaments_frames sample_data sample_store [(1, 0), (0, 0)]) (targetPos (sample_data ! 1))
       = Vector3 1 2 3
   \<and> cells (Fillers_frames sample_data sample_store [1, 0]) (chaosPos (sample_data ! 1))
       = Vector3 4 5 6
   \<and> cells (Fillers_useFrame True 1 sample_data sample_store) (currentPos (sample_data ! 1))
       = Vector3 4 5 6
   \<and> cells (Fillers_useFrame True 0 sample_data sample_store) (currentPos (sample_data ! 1))
       = Vector3 3.25 4.25 5.25"
proof -
  have made: "makeData sample_draws empty_store = (sample_data, sample_store)"
    by (simp add: sample_data_def sample_store_def)
  have "length sample_data = 2"
    using makeData_length [OF made] by (simp add: sample_draws_def)
  then have one: "1 < length sample_data"
    by simp
  have second: "fst (sample_draws ! 1) = Vector3 1 2 3" "fst (snd (sample_draws ! 1)) = Vector3 4 5 6"
    "snd (snd (sample_draws ! 1)) = 0.25"
    by (simp_all add: sample_draws_def)
  have rest: "lerp (uProgress FoliageShaderMaterial) 0 0.1 = 0"
    using C2_interpolation [where u = FoliageShaderMaterial and progress = 0,
        THEN conjunct2, THEN conjunct2, THEN conjunct1]
    by (simp add: FoliageShaderMaterial_def)
  note ensemble = C2_interpolation [where draws = sample_draws and ?st0.0 = empty_store
      and data = sample_data and st = sample_store and i = 1 and ?s1.0 = sample_store,
      THEN conjunct2, THEN conjunct2, THEN conjunct2, rule_format, OF conjI, OF made one]
  have formed: "cells (Ornaments_frames sample_data sample_store [(1, 0), (0, 0)]) (targetPos (sample_data ! 1))
       = Vector3 1 2 3"
    using ensemble [where fs = "[(1, 0), (0, 0)]", THEN conjunct1]
    by (simp only: second)
  have chaos: "cells (Fillers_frames sample_data sample_store [1, 0]) (chaosPos (sample_data ! 1))
       = Vector3 4 5 6"
    using ensemble [where ps = "[1, 0]", THEN conjunct2, THEN conjunct2, THEN conjunct2, THEN conjunct1]
    by (simp only: second)
  have at_formed: "cells sample_store (targetPos (sample_data ! 1)) = Vector3 1 2 3"
    using ensemble [where fs = "[]", THEN conjunct1]
    by (simp only: second Ornaments_frames_def foldl_Nil)
  have at_chaos: "cells sample_store (chaosPos (sample_data ! 1)) = Vector3 4 5 6"
    using ensemble [where fs = "[]", THEN conjunct2, THEN conjunct1]
    by (simp only: second Ornaments_frames_def foldl_Nil)
  have current: "cells sample_store (currentPos (sample_data ! 1)) = Vector3 4 5 6"
    and speed: "speed (sample_data ! 1) = 0.25"
    using ensemble [THEN conjunct2, THEN conjunct2, THEN conjunct2, THEN conjunct2, THEN conjunct1]
      ensemble [THEN conjunct2, THEN conjunct2, THEN conjunct2, THEN conjunct2, THEN conjunct2,
        THEN conjunct1]
    by (simp_all only: second)
  have above: "(0.5::real) < 1" and below: "(0::real) \<le> 0.5"
    by simp_all
  have lerp_stay: "Vector3_lerp (Vector3 4 5 6) (Vector3 4 5 6) 0.25 = Vector3 4 5 6"
    and lerp_back: "Vector3_lerp (Vector3 4 5 6) (Vector3 1 2 3) 0.25 = Vector3 3.25 4.25 5.25"
    by (simp_all add: Vector3_lerp_def)
  have "cells (Fillers_useFrame True 1 sample_data sample_store) (currentPos (sample_data ! 1)) =
      Vector3_lerp (cells sample_store (currentPos (sample_data ! 1)))
        (cells sample_store (chaosPos (sample_data ! 1))) (speed (sample_data ! 1))"
    using ensemble [where progress = 1, THEN conjunct2, THEN conjunct2, THEN conjunct2,
        THEN conjunct2, THEN conjunct2, THEN conjunct2, THEN conjunct1, THEN mp, OF above,
        THEN conjunct1] .
  then have unleashed: "cells (Fillers_useFrame True 1 sample_data sample_store) (currentPos (sample_data ! 1))
       = Vector3 4 5 6"
    by (simp only: current at_chaos speed lerp_stay)
  have "cells (Fillers_useFrame True 0 sample_data sample_store) (currentPos (sample_data ! 1)) =
      Vector3_lerp (cells sample_store (currentPos (sample_data ! 1)))
        (cells sample_store (targetPos (sample_data ! 1))) (speed (sample_data ! 1))"
    using ensemble [where progress = 0, THEN conjunct2, THEN conjunct2, THEN conjunct2,
        THEN conjunct2, THEN conjunct2, THEN conjunct2, THEN conjunct2, THEN mp, OF below,
        THEN conjunct1] .
  then have formedwards: "cells (Fillers_useFrame True 0 sample_data sample_store) (currentPos (sample_data ! 1))
       = Vector3 3.25 4.25 5.25"
    by (simp only: current at_formed speed lerp_back)
  from rest formed chaos unleashed formedwards show ?thesis
    by (intro conjI)
qed

end
